theory Spec2Isabelle
  imports Complex_Main "HOL-Library.Word"
begin

section \<open>Exceptions\<close>

text \<open>
  The Python exceptions the modelled functions can raise. A raise is a value: a function
  that may raise returns \<open>py_exc + 'a\<close>, with \<open>Inl\<close> carrying the exception.
\<close>

datatype py_exc =
    KeyError
  | ValueError
  | IndexError
  | AttributeError
  | TypeError
  | CancelledError
  | OSError

section \<open>strings.py\<close>

subsection \<open>The library function \<open>str.format\<close>, called with keyword arguments only\<close>

text \<open>
  \<open>get_message\<close> calls \<open>message.format(**kwargs)\<close>: the tuple of positional arguments is
  empty. The model follows CPython's markup iterator: literal text up to a brace, the
  escapes \<open>{{\<close> and \<open>}}\<close>, and replacement fields \<open>{name!conversion:spec}\<close>. A string is the
  list of its UTF-8 bytes; every character the parser looks at is ASCII.

  What depends on the type of the argument (attribute and index access after the first
  name, the conversion, the format specification) is the parameter \<open>render\<close>: it receives
  the argument found, the rest of the field name, the conversion and the specification.
\<close>

type_synonym 'v render = "'v \<Rightarrow> string \<Rightarrow> char option \<Rightarrow> string \<Rightarrow> py_exc + string"

text \<open>
  The field name runs to the first \<open>}\<close>, \<open>:\<close> or \<open>!\<close>; a bracketed index is skipped up to
  its \<open>]\<close>; a \<open>{\<close> in it is a ValueError. The result is the name, the terminator (if the
  string did not end first) and the text after the terminator.
\<close>

function scan_name :: "string \<Rightarrow> py_exc + (string \<times> char option \<times> string)" where
  "scan_name [] = Inr ([], None, [])"
| "scan_name (c # cs) =
     (if c = CHR ''{'' then Inl ValueError
      else if c = CHR ''}'' \<or> c = CHR '':'' \<or> c = CHR ''!'' then Inr ([], Some c, cs)
      else if c = CHR ''['' then
        map_sum id (\<lambda>(nm, t, rest). (c # takeWhile (\<lambda>d. d \<noteq> CHR '']'') cs @ nm, t, rest))
          (scan_name (dropWhile (\<lambda>d. d \<noteq> CHR '']'') cs))
      else map_sum id (\<lambda>(nm, t, rest). (c # nm, t, rest)) (scan_name cs))"
  by pat_completeness auto
termination
  by (relation "measure length") (auto simp: length_dropWhile_le less_Suc_eq_le)

text \<open>
  The format specification runs to the brace that closes the field; braces nest. The
  counter is the number of braces opened inside the specification.
\<close>

fun scan_spec :: "nat \<Rightarrow> string \<Rightarrow> (string \<times> string) option" where
  "scan_spec n [] = None"
| "scan_spec n (c # cs) =
     (if c = CHR ''{'' then map_option (\<lambda>(sp, rest). (c # sp, rest)) (scan_spec (Suc n) cs)
      else if c = CHR ''}'' then
        (case n of
           0 \<Rightarrow> Some ([], cs)
         | Suc m \<Rightarrow> map_option (\<lambda>(sp, rest). (c # sp, rest)) (scan_spec m cs))
      else map_option (\<lambda>(sp, rest). (c # sp, rest)) (scan_spec n cs))"

text \<open>
  A replacement field, read from the text after its opening brace: the field name, the
  conversion, the specification, and the text after the closing brace. Every malformed
  field is a ValueError.
\<close>

definition parse_field :: "string \<Rightarrow> py_exc + (string \<times> char option \<times> string \<times> string)" where
  "parse_field s =
     (case scan_name s of
        Inl e \<Rightarrow> Inl e
      | Inr (nm, None, rest) \<Rightarrow> Inl ValueError
      | Inr (nm, Some t, rest) \<Rightarrow>
          if t = CHR ''}'' then Inr (nm, None, [], rest)
          else if t = CHR ''!'' then
            (case rest of
               [] \<Rightarrow> Inl ValueError
             | cv # rest1 \<Rightarrow>
                 (case rest1 of
                    [] \<Rightarrow> Inl ValueError
                  | d # rest2 \<Rightarrow>
                      if d = CHR ''}'' then Inr (nm, Some cv, [], rest2)
                      else if d \<noteq> CHR '':'' then Inl ValueError
                      else (case scan_spec 0 rest2 of
                              None \<Rightarrow> Inl ValueError
                            | Some (sp, rest3) \<Rightarrow> Inr (nm, Some cv, sp, rest3))))
          else (case scan_spec 0 rest of
                  None \<Rightarrow> Inl ValueError
                | Some (sp, rest1) \<Rightarrow> Inr (nm, None, sp, rest1)))"

definition is_digit :: "char \<Rightarrow> bool" where
  "is_digit c = (c \<in> set ''0123456789'')"

definition digits_value :: "string \<Rightarrow> nat" where
  "digits_value ds = foldl (\<lambda>a c. 10 * a + (of_char c - of_char CHR ''0'')) 0 ds"

text \<open>The largest index CPython accepts in a field name (a 64-bit \<open>Py_ssize_t\<close>).\<close>

definition PY_SSIZE_T_MAX :: nat where
  "PY_SSIZE_T_MAX = 2 ^ 63 - 1"

text \<open>
  The object a field names. The first part of the name runs to the first \<open>.\<close> or \<open>[\<close>.
  Empty (automatic numbering) or all digits, it indexes the positional arguments: the
  tuple is empty, so the lookup raises IndexError (ValueError when the digits overflow).
  Otherwise it is a keyword: KeyError when \<open>kwargs\<close> has no such key.
\<close>

definition get_field ::
  "'v render \<Rightarrow> (string \<times> 'v) list \<Rightarrow> string \<Rightarrow> char option \<Rightarrow> string \<Rightarrow> py_exc + string" where
  "get_field render kwargs nm cv sp =
     (let first = takeWhile (\<lambda>c. c \<noteq> CHR ''.'' \<and> c \<noteq> CHR ''['') nm;
          rest = dropWhile (\<lambda>c. c \<noteq> CHR ''.'' \<and> c \<noteq> CHR ''['') nm
      in if first = [] then Inl IndexError
         else if list_all is_digit first then
           (if digits_value first > PY_SSIZE_T_MAX then Inl ValueError else Inl IndexError)
         else (case map_of kwargs first of
                 None \<Rightarrow> Inl KeyError
               | Some v \<Rightarrow> render v rest cv sp))"

lemma scan_spec_shorter: "scan_spec n s = Some (sp, rest) \<Longrightarrow> length rest < length s"
proof (induction s arbitrary: n sp rest)
  case Nil
  then show ?case by simp
next
  case (Cons c cs)
  then show ?case
    by (cases n) (auto split: if_splits, (fastforce)+)
qed

lemma scan_name_shorter: "scan_name s = Inr (nm, t, rest) \<Longrightarrow> length rest \<le> length s"
proof (induction s arbitrary: nm t rest rule: scan_name.induct)
  case 1
  then show ?case by simp
next
  case (2 c cs)
  have "length (dropWhile (\<lambda>d. d \<noteq> CHR '']'') cs) \<le> length cs"
    by (rule length_dropWhile_le)
  with 2 show ?case
    by (fastforce split: if_splits simp: map_sum_def split: sum.splits)
qed

lemma parse_field_shorter:
  "parse_field s = Inr (nm, cv, sp, rest) \<Longrightarrow> length rest < Suc (length s)"
  unfolding parse_field_def
  by (auto split: sum.splits option.splits if_splits list.splits prod.splits
      dest!: scan_name_shorter scan_spec_shorter)

text \<open>
  \<open>str.format\<close>: the template is read from left to right, and the first failure is the
  result. A single \<open>{\<close> at the end and a single \<open>}\<close> anywhere are ValueErrors.
\<close>

function py_format :: "'v render \<Rightarrow> (string \<times> 'v) list \<Rightarrow> string \<Rightarrow> py_exc + string" where
  "py_format render kwargs [] = Inr []"
| "py_format render kwargs (c # cs) =
     (if c = CHR ''{'' then
        (case cs of
           [] \<Rightarrow> Inl ValueError
         | d # ds \<Rightarrow>
             if d = CHR ''{'' then map_sum id ((#) c) (py_format render kwargs ds)
             else (case parse_field cs of
                     Inl e \<Rightarrow> Inl e
                   | Inr (nm, cv, sp, rest) \<Rightarrow>
                       (case get_field render kwargs nm cv sp of
                          Inl e \<Rightarrow> Inl e
                        | Inr s \<Rightarrow> map_sum id ((@) s) (py_format render kwargs rest))))
      else if c = CHR ''}'' then
        (case cs of
           [] \<Rightarrow> Inl ValueError
         | d # ds \<Rightarrow>
             if d = CHR ''}'' then map_sum id ((#) c) (py_format render kwargs ds)
             else Inl ValueError)
      else map_sum id ((#) c) (py_format render kwargs cs))"
  by pat_completeness auto
termination
  by (relation "measure (\<lambda>(render, kwargs, s). length s)")
     (auto dest: parse_field_shorter)

subsection \<open>The message table\<close>

text \<open>
  \<open>MESSAGES\<close>, language by language, in the order of the source. Text outside ASCII is
  given by its UTF-8 bytes.
\<close>

definition MESSAGES_en :: "(string \<times> string) list" where
  "MESSAGES_en = [
     (''start'',
      ''Welcome to File Compression Bot! '' @ [CHR 0xF0, CHR 0x9F, CHR 0x93, CHR 0x81]
      @ ''\<newline>\<newline>I can help you compress and extract files.\<newline>\<newline>Send me any file to begin, or ''
      @ ''use /help to see available commands.''),
     (''help'',
      [CHR 0xF0, CHR 0x9F, CHR 0x93, CHR 0x9A]
      @ '' *Bot Commands:*\<newline>\<newline>/start - Start the bot\<newline>/help - Show this help message\<newline>''
      @ ''/cancel - Cancel current operation\<newline>\<newline>'' @ [CHR 0xF0, CHR 0x9F, CHR 0x93,
      CHR 0x8B]
      @ '' *How to use:*\<newline>\<newline>1. Send any file to compress it\<newline>2. Send a compressed file ''
      @ ''(.zip, .tar.gz, .rar, .7z) to extract it\<newline>3. Use inline buttons to select ''
      @ ''desired operations\<newline>\<newline>'' @ [CHR 0xE2, CHR 0x9A, CHR 0x99, CHR 0xEF,
      CHR 0xB8, CHR 0x8F] @ '' *Features:*\<newline>'' @ [CHR 0xE2, CHR 0x80, CHR 0xA2]
      @ '' Multiple compression formats\<newline>'' @ [CHR 0xE2, CHR 0x80, CHR 0xA2]
      @ '' No file size limits\<newline>'' @ [CHR 0xE2, CHR 0x80, CHR 0xA2]
      @ '' Fast processing with streaming\<newline>'' @ [CHR 0xE2, CHR 0x80, CHR 0xA2]
      @ '' Progress tracking\<newline>''),
     (''file_received'',
      ''File received: {}\<newline>Size: {:.2f} MB\<newline>\<newline>What would you like to do with this file?''),
     (''processing'',
      ''Processing your file... Please wait.''),
     (''compressing'',
      ''Compressing your file to {}...\<newline>\<newline>Progress: {}%''),
     (''extracting'',
      ''Extracting your file...\<newline>\<newline>Progress: {}%''),
     (''compression_complete'',
      ''Compression complete! Sending the compressed file...''),
     (''extraction_complete'',
      ''Extraction complete! Sending the extracted file(s)...''),
     (''extraction_too_many_files'',
      ''Extraction complete! There are {} files. Sending them as a compressed '' @ ''archive...''),
     (''task_cancelled'',
      ''Task cancelled successfully.''),
     (''no_active_task'',
      ''No active task to cancel.''),
     (''error_unsupported_format'',
      ''Unsupported file format. Supported formats for extraction: zip, tar.gz, '' @ ''rar, 7z''),
     (''error_processing'',
      ''Error processing your file: {}''),
     (''error_file_corrupted'',
      ''The file appears to be corrupted or invalid.''),
     (''error_extraction'',
      ''Could not extract the file. The file might be password-protected or '' @ ''corrupted.''),
     (''error_compression'',
      ''Could not compress the file: {}''),
     (''compress_format_select'',
      ''Select compression format:''),
     (''file_too_large_telegram'',
      ''The file is too large to be sent via Telegram. I'' @ [CHR 0x27]
      @ ''ll split it into smaller parts.''),
     (''split_part'',
      ''Part {}/{} of your extraction''),
     (''preview_content'',
      ''Preview of file content:\<newline>\<newline>'' @ [CHR 0x60, CHR 0x60, CHR 0x60]
      @ ''\<newline>{}\<newline>'' @ [CHR 0x60, CHR 0x60, CHR 0x60]),
     (''error_general'',
      ''An error occurred: {}. Please try again.''),
     (''timeout'',
      ''Operation timed out. Please try with a smaller file.'')
   ]"

definition MESSAGES_fa :: "(string \<times> string) list" where
  "MESSAGES_fa = [
     (''start'',
      [CHR 0xD8, CHR 0xA8, CHR 0xD9, CHR 0x87] @ '' '' @ [CHR 0xD8, CHR 0xB1, CHR 0xD8, CHR 0xA8,
      CHR 0xD8, CHR 0xA7, CHR 0xD8, CHR 0xAA] @ '' '' @ [CHR 0xD9, CHR 0x81, CHR 0xD8, CHR 0xB4,
      CHR 0xD8, CHR 0xB1, CHR 0xD8, CHR 0xAF, CHR 0xD9, CHR 0x87, CHR 0xE2, CHR 0x80, CHR 0x8C,
      CHR 0xD8, CHR 0xB3, CHR 0xD8, CHR 0xA7, CHR 0xD8, CHR 0xB2, CHR 0xDB, CHR 0x8C] @ '' ''
      @ [CHR 0xD9, CHR 0x81, CHR 0xD8, CHR 0xA7, CHR 0xDB, CHR 0x8C, CHR 0xD9, CHR 0x84] @ '' ''
      @ [CHR 0xD8, CHR 0xAE, CHR 0xD9, CHR 0x88, CHR 0xD8, CHR 0xB4] @ '' '' @ [CHR 0xD8, CHR 0xA2,
      CHR 0xD9, CHR 0x85, CHR 0xD8, CHR 0xAF, CHR 0xDB, CHR 0x8C, CHR 0xD8, CHR 0xAF] @ ''! ''
      @ [CHR 0xF0, CHR 0x9F, CHR 0x93, CHR 0x81] @ ''\<newline>\<newline>'' @ [CHR 0xD9, CHR 0x85,
      CHR 0xD9, CHR 0x86] @ '' '' @ [CHR 0xD9, CHR 0x85, CHR 0xDB, CHR 0x8C, CHR 0xE2, CHR 0x80,
      CHR 0x8C, CHR 0xD8, CHR 0xAA, CHR 0xD9, CHR 0x88, CHR 0xD8, CHR 0xA7, CHR 0xD9, CHR 0x86,
      CHR 0xD9, CHR 0x85] @ '' '' @ [CHR 0xD8, CHR 0xA8, CHR 0xD9, CHR 0x87] @ '' '' @ [CHR 0xD8,
      CHR 0xB4, CHR 0xD9, CHR 0x85, CHR 0xD8, CHR 0xA7] @ '' '' @ [CHR 0xD8, CHR 0xAF, CHR 0xD8,
      CHR 0xB1] @ '' '' @ [CHR 0xD9, CHR 0x81, CHR 0xD8, CHR 0xB4, CHR 0xD8, CHR 0xB1, CHR 0xD8,
      CHR 0xAF, CHR 0xD9, CHR 0x87, CHR 0xE2, CHR 0x80, CHR 0x8C, CHR 0xD8, CHR 0xB3, CHR 0xD8,
      CHR 0xA7, CHR 0xD8, CHR 0xB2, CHR 0xDB, CHR 0x8C] @ '' '' @ [CHR 0xD9, CHR 0x88] @ '' ''
      @ [CHR 0xD8, CHR 0xA7, CHR 0xD8, CHR 0xB3, CHR 0xD8, CHR 0xAA, CHR 0xD8, CHR 0xAE, CHR 0xD8,
      CHR 0xB1, CHR 0xD8, CHR 0xA7, CHR 0xD8, CHR 0xAC] @ '' '' @ [CHR 0xD9, CHR 0x81, CHR 0xD8,
      CHR 0xA7, CHR 0xDB, CHR 0x8C, CHR 0xD9, CHR 0x84, CHR 0xE2, CHR 0x80, CHR 0x8C, CHR 0xD9,
      CHR 0x87, CHR 0xD8, CHR 0xA7] @ '' '' @ [CHR 0xDA, CHR 0xA9, CHR 0xD9, CHR 0x85, CHR 0xDA,
      CHR 0xA9] @ '' '' @ [CHR 0xDA, CHR 0xA9, CHR 0xD9, CHR 0x86, CHR 0xD9, CHR 0x85]
      @ ''.\<newline>\<newline>'' @ [CHR 0xD8, CHR 0xA8, CHR 0xD8, CHR 0xB1, CHR 0xD8, CHR 0xA7,
      CHR 0xDB, CHR 0x8C] @ '' '' @ [CHR 0xD8, CHR 0xB4, CHR 0xD8, CHR 0xB1, CHR 0xD9, CHR 0x88,
      CHR 0xD8, CHR 0xB9, CHR 0xD8, CHR 0x8C] @ '' '' @ [CHR 0xD9, CHR 0x87, CHR 0xD8, CHR 0xB1]
      @ '' '' @ [CHR 0xD9, CHR 0x81, CHR 0xD8, CHR 0xA7, CHR 0xDB, CHR 0x8C, CHR 0xD9, CHR 0x84,
      CHR 0xDB, CHR 0x8C] @ '' '' @ [CHR 0xD8, CHR 0xB1, CHR 0xD8, CHR 0xA7] @ '' '' @ [CHR 0xD8,
      CHR 0xA8, CHR 0xD8, CHR 0xB1, CHR 0xD8, CHR 0xA7, CHR 0xDB, CHR 0x8C] @ '' '' @ [CHR 0xD9,
      CHR 0x85, CHR 0xD9, CHR 0x86] @ '' '' @ [CHR 0xD8, CHR 0xA7, CHR 0xD8, CHR 0xB1, CHR 0xD8,
      CHR 0xB3, CHR 0xD8, CHR 0xA7, CHR 0xD9, CHR 0x84] @ '' '' @ [CHR 0xDA, CHR 0xA9, CHR 0xD9,
      CHR 0x86, CHR 0xDB, CHR 0x8C, CHR 0xD8, CHR 0xAF] @ '' '' @ [CHR 0xDB, CHR 0x8C, CHR 0xD8,
      CHR 0xA7] @ '' '' @ [CHR 0xD8, CHR 0xA7, CHR 0xD8, CHR 0xB2] @ '' /help '' @ [CHR 0xD8,
      CHR 0xA8, CHR 0xD8, CHR 0xB1, CHR 0xD8, CHR 0xA7, CHR 0xDB, CHR 0x8C] @ '' '' @ [CHR 0xD8,
      CHR 0xAF, CHR 0xDB, CHR 0x8C, CHR 0xD8, CHR 0xAF, CHR 0xD9, CHR 0x86] @ '' '' @ [CHR 0xD8,
      CHR 0xAF, CHR 0xD8, CHR 0xB3, CHR 0xD8, CHR 0xAA, CHR 0xD9, CHR 0x88, CHR 0xD8, CHR 0xB1,
      CHR 0xD8, CHR 0xA7, CHR 0xD8, CHR 0xAA] @ '' '' @ [CHR 0xD9, CHR 0x85, CHR 0xD9, CHR 0x88,
      CHR 0xD8, CHR 0xAC, CHR 0xD9, CHR 0x88, CHR 0xD8, CHR 0xAF] @ '' '' @ [CHR 0xD8, CHR 0xA7,
      CHR 0xD8, CHR 0xB3, CHR 0xD8, CHR 0xAA, CHR 0xD9, CHR 0x81, CHR 0xD8, CHR 0xA7, CHR 0xD8,
      CHR 0xAF, CHR 0xD9, CHR 0x87] @ '' '' @ [CHR 0xDA, CHR 0xA9, CHR 0xD9, CHR 0x86, CHR 0xDB,
      CHR 0x8C, CHR 0xD8, CHR 0xAF] @ ''.''),
     (''help'',
      [CHR 0xF0, CHR 0x9F, CHR 0x93, CHR 0x9A] @ '' *'' @ [CHR 0xD8, CHR 0xAF, CHR 0xD8, CHR 0xB3,
      CHR 0xD8, CHR 0xAA, CHR 0xD9, CHR 0x88, CHR 0xD8, CHR 0xB1, CHR 0xD8, CHR 0xA7, CHR 0xD8,
      CHR 0xAA] @ '' '' @ [CHR 0xD8, CHR 0xB1, CHR 0xD8, CHR 0xA8, CHR 0xD8, CHR 0xA7, CHR 0xD8,
      CHR 0xAA] @ '':*\<newline>\<newline>/start - '' @ [CHR 0xD8, CHR 0xB4, CHR 0xD8, CHR 0xB1,
      CHR 0xD9, CHR 0x88, CHR 0xD8, CHR 0xB9] @ '' '' @ [CHR 0xD8, CHR 0xB1, CHR 0xD8, CHR 0xA8,
      CHR 0xD8, CHR 0xA7, CHR 0xD8, CHR 0xAA] @ ''\<newline>/help - '' @ [CHR 0xD9, CHR 0x86,
      CHR 0xD9, CHR 0x85, CHR 0xD8, CHR 0xA7, CHR 0xDB, CHR 0x8C, CHR 0xD8, CHR 0xB4] @ '' ''
      @ [CHR 0xD8, CHR 0xA7, CHR 0xDB, CHR 0x8C, CHR 0xD9, CHR 0x86] @ '' '' @ [CHR 0xD9, CHR 0xBE,
      CHR 0xDB, CHR 0x8C, CHR 0xD8, CHR 0xA7, CHR 0xD9, CHR 0x85] @ '' '' @ [CHR 0xD8, CHR 0xB1,
      CHR 0xD8, CHR 0xA7, CHR 0xD9, CHR 0x87, CHR 0xD9, CHR 0x86, CHR 0xD9, CHR 0x85, CHR 0xD8,
      CHR 0xA7] @ ''\<newline>/cancel - '' @ [CHR 0xD9, CHR 0x84, CHR 0xD8, CHR 0xBA, CHR 0xD9,
      CHR 0x88] @ '' '' @ [CHR 0xD8, CHR 0xB9, CHR 0xD9, CHR 0x85, CHR 0xD9, CHR 0x84, CHR 0xDB,
      CHR 0x8C, CHR 0xD8, CHR 0xA7, CHR 0xD8, CHR 0xAA] @ '' '' @ [CHR 0xD9, CHR 0x81, CHR 0xD8,
      CHR 0xB9, CHR 0xD9, CHR 0x84, CHR 0xDB, CHR 0x8C] @ ''\<newline>\<newline>'' @ [CHR 0xF0,
      CHR 0x9F, CHR 0x93, CHR 0x8B] @ '' *'' @ [CHR 0xD9, CHR 0x86, CHR 0xD8, CHR 0xAD, CHR 0xD9,
      CHR 0x88, CHR 0xD9, CHR 0x87] @ '' '' @ [CHR 0xD8, CHR 0xA7, CHR 0xD8, CHR 0xB3, CHR 0xD8,
      CHR 0xAA, CHR 0xD9, CHR 0x81, CHR 0xD8, CHR 0xA7, CHR 0xD8, CHR 0xAF, CHR 0xD9, CHR 0x87]
      @ '':*\<newline>\<newline>1. '' @ [CHR 0xD9, CHR 0x87, CHR 0xD8, CHR 0xB1] @ '' ''
      @ [CHR 0xD9, CHR 0x81, CHR 0xD8, CHR 0xA7, CHR 0xDB, CHR 0x8C, CHR 0xD9, CHR 0x84, CHR 0xDB,
      CHR 0x8C] @ '' '' @ [CHR 0xD8, CHR 0xB1, CHR 0xD8, CHR 0xA7] @ '' '' @ [CHR 0xD8, CHR 0xA8,
      CHR 0xD8, CHR 0xB1, CHR 0xD8, CHR 0xA7, CHR 0xDB, CHR 0x8C] @ '' '' @ [CHR 0xD9, CHR 0x81,
      CHR 0xD8, CHR 0xB4, CHR 0xD8, CHR 0xB1, CHR 0xD8, CHR 0xAF, CHR 0xD9, CHR 0x87, CHR 0xE2,
      CHR 0x80, CHR 0x8C, CHR 0xD8, CHR 0xB3, CHR 0xD8, CHR 0xA7, CHR 0xD8, CHR 0xB2, CHR 0xDB,
      CHR 0x8C] @ '' '' @ [CHR 0xD8, CHR 0xA7, CHR 0xD8, CHR 0xB1, CHR 0xD8, CHR 0xB3, CHR 0xD8,
      CHR 0xA7, CHR 0xD9, CHR 0x84] @ '' '' @ [CHR 0xDA, CHR 0xA9, CHR 0xD9, CHR 0x86, CHR 0xDB,
      CHR 0x8C, CHR 0xD8, CHR 0xAF] @ ''\<newline>2. '' @ [CHR 0xDB, CHR 0x8C, CHR 0xDA, CHR 0xA9]
      @ '' '' @ [CHR 0xD9, CHR 0x81, CHR 0xD8, CHR 0xA7, CHR 0xDB, CHR 0x8C, CHR 0xD9, CHR 0x84]
      @ '' '' @ [CHR 0xD9, CHR 0x81, CHR 0xD8, CHR 0xB4, CHR 0xD8, CHR 0xB1, CHR 0xD8, CHR 0xAF,
      CHR 0xD9, CHR 0x87] @ '' (.zip'' @ [CHR 0xD8, CHR 0x8C] @ '' .tar.gz'' @ [CHR 0xD8, CHR 0x8C]
      @ '' .rar'' @ [CHR 0xD8, CHR 0x8C] @ '' .7z) '' @ [CHR 0xD8, CHR 0xA8, CHR 0xD8, CHR 0xB1,
      CHR 0xD8, CHR 0xA7, CHR 0xDB, CHR 0x8C] @ '' '' @ [CHR 0xD8, CHR 0xA7, CHR 0xD8, CHR 0xB3,
      CHR 0xD8, CHR 0xAA, CHR 0xD8, CHR 0xAE, CHR 0xD8, CHR 0xB1, CHR 0xD8, CHR 0xA7, CHR 0xD8,
      CHR 0xAC] @ '' '' @ [CHR 0xD8, CHR 0xA7, CHR 0xD8, CHR 0xB1, CHR 0xD8, CHR 0xB3, CHR 0xD8,
      CHR 0xA7, CHR 0xD9, CHR 0x84] @ '' '' @ [CHR 0xDA, CHR 0xA9, CHR 0xD9, CHR 0x86, CHR 0xDB,
      CHR 0x8C, CHR 0xD8, CHR 0xAF] @ ''\<newline>3. '' @ [CHR 0xD8, CHR 0xA7, CHR 0xD8, CHR 0xB2]
      @ '' '' @ [CHR 0xD8, CHR 0xAF, CHR 0xDA, CHR 0xA9, CHR 0xD9, CHR 0x85, CHR 0xD9, CHR 0x87,
      CHR 0xE2, CHR 0x80, CHR 0x8C, CHR 0xD9, CHR 0x87, CHR 0xD8, CHR 0xA7, CHR 0xDB, CHR 0x8C]
      @ '' '' @ [CHR 0xD8, CHR 0xA7, CHR 0xDB, CHR 0x8C, CHR 0xD9, CHR 0x86, CHR 0xD9, CHR 0x84,
      CHR 0xD8, CHR 0xA7, CHR 0xDB, CHR 0x8C, CHR 0xD9, CHR 0x86] @ '' '' @ [CHR 0xD8, CHR 0xA8,
      CHR 0xD8, CHR 0xB1, CHR 0xD8, CHR 0xA7, CHR 0xDB, CHR 0x8C] @ '' '' @ [CHR 0xD8, CHR 0xA7,
      CHR 0xD9, CHR 0x86, CHR 0xD8, CHR 0xAA, CHR 0xD8, CHR 0xAE, CHR 0xD8, CHR 0xA7, CHR 0xD8,
      CHR 0xA8] @ '' '' @ [CHR 0xD8, CHR 0xB9, CHR 0xD9, CHR 0x85, CHR 0xD9, CHR 0x84, CHR 0xDB,
      CHR 0x8C, CHR 0xD8, CHR 0xA7, CHR 0xD8, CHR 0xAA] @ '' '' @ [CHR 0xD9, CHR 0x85, CHR 0xD9,
      CHR 0x88, CHR 0xD8, CHR 0xB1, CHR 0xD8, CHR 0xAF] @ '' '' @ [CHR 0xD9, CHR 0x86, CHR 0xD8,
      CHR 0xB8, CHR 0xD8, CHR 0xB1] @ '' '' @ [CHR 0xD8, CHR 0xA7, CHR 0xD8, CHR 0xB3, CHR 0xD8,
      CHR 0xAA, CHR 0xD9, CHR 0x81, CHR 0xD8, CHR 0xA7, CHR 0xD8, CHR 0xAF, CHR 0xD9, CHR 0x87]
      @ '' '' @ [CHR 0xDA, CHR 0xA9, CHR 0xD9, CHR 0x86, CHR 0xDB, CHR 0x8C, CHR 0xD8, CHR 0xAF]
      @ ''\<newline>\<newline>'' @ [CHR 0xE2, CHR 0x9A, CHR 0x99, CHR 0xEF, CHR 0xB8, CHR 0x8F]
      @ '' *'' @ [CHR 0xD9, CHR 0x88, CHR 0xDB, CHR 0x8C, CHR 0xDA, CHR 0x98, CHR 0xDA, CHR 0xAF,
      CHR 0xDB, CHR 0x8C, CHR 0xE2, CHR 0x80, CHR 0x8C, CHR 0xD9, CHR 0x87, CHR 0xD8, CHR 0xA7]
      @ '':*\<newline>'' @ [CHR 0xE2, CHR 0x80, CHR 0xA2] @ '' '' @ [CHR 0xD9, CHR 0x81, CHR 0xD8,
      CHR 0xB1, CHR 0xD9, CHR 0x85, CHR 0xD8, CHR 0xAA, CHR 0xE2, CHR 0x80, CHR 0x8C, CHR 0xD9,
      CHR 0x87, CHR 0xD8, CHR 0xA7, CHR 0xDB, CHR 0x8C] @ '' '' @ [CHR 0xD9, CHR 0x81, CHR 0xD8,
      CHR 0xB4, CHR 0xD8, CHR 0xB1, CHR 0xD8, CHR 0xAF, CHR 0xD9, CHR 0x87, CHR 0xE2, CHR 0x80,
      CHR 0x8C, CHR 0xD8, CHR 0xB3, CHR 0xD8, CHR 0xA7, CHR 0xD8, CHR 0xB2, CHR 0xDB, CHR 0x8C]
      @ '' '' @ [CHR 0xD9, CHR 0x85, CHR 0xD8, CHR 0xAA, CHR 0xD8, CHR 0xB9, CHR 0xD8, CHR 0xAF,
      CHR 0xD8, CHR 0xAF] @ ''\<newline>'' @ [CHR 0xE2, CHR 0x80, CHR 0xA2] @ '' '' @ [CHR 0xD8,
      CHR 0xA8, CHR 0xD8, CHR 0xAF, CHR 0xD9, CHR 0x88, CHR 0xD9, CHR 0x86] @ '' '' @ [CHR 0xD9,
      CHR 0x85, CHR 0xD8, CHR 0xAD, CHR 0xD8, CHR 0xAF, CHR 0xD9, CHR 0x88, CHR 0xD8, CHR 0xAF,
      CHR 0xDB, CHR 0x8C, CHR 0xD8, CHR 0xAA] @ '' '' @ [CHR 0xD8, CHR 0xAF, CHR 0xD8, CHR 0xB1]
      @ '' '' @ [CHR 0xD8, CHR 0xA7, CHR 0xD9, CHR 0x86, CHR 0xD8, CHR 0xAF, CHR 0xD8, CHR 0xA7,
      CHR 0xD8, CHR 0xB2, CHR 0xD9, CHR 0x87] @ '' '' @ [CHR 0xD9, CHR 0x81, CHR 0xD8, CHR 0xA7,
      CHR 0xDB, CHR 0x8C, CHR 0xD9, CHR 0x84] @ ''\<newline>'' @ [CHR 0xE2, CHR 0x80, CHR 0xA2]
      @ '' '' @ [CHR 0xD9, CHR 0xBE, CHR 0xD8, CHR 0xB1, CHR 0xD8, CHR 0xAF, CHR 0xD8, CHR 0xA7,
      CHR 0xD8, CHR 0xB2, CHR 0xD8, CHR 0xB4] @ '' '' @ [CHR 0xD8, CHR 0xB3, CHR 0xD8, CHR 0xB1,
      CHR 0xDB, CHR 0x8C, CHR 0xD8, CHR 0xB9] @ '' '' @ [CHR 0xD8, CHR 0xA8, CHR 0xD8, CHR 0xA7]
      @ '' '' @ [CHR 0xD8, CHR 0xA7, CHR 0xD8, CHR 0xB3, CHR 0xD8, CHR 0xAA, CHR 0xD8, CHR 0xB1,
      CHR 0xDB, CHR 0x8C, CHR 0xD9, CHR 0x85, CHR 0xDB, CHR 0x8C, CHR 0xD9, CHR 0x86, CHR 0xDA,
      CHR 0xAF] @ ''\<newline>'' @ [CHR 0xE2, CHR 0x80, CHR 0xA2] @ '' '' @ [CHR 0xD9, CHR 0xBE,
      CHR 0xDB, CHR 0x8C, CHR 0xDA, CHR 0xAF, CHR 0xDB, CHR 0x8C, CHR 0xD8, CHR 0xB1, CHR 0xDB,
      CHR 0x8C] @ '' '' @ [CHR 0xD9, CHR 0xBE, CHR 0xDB, CHR 0x8C, CHR 0xD8, CHR 0xB4, CHR 0xD8,
      CHR 0xB1, CHR 0xD9, CHR 0x81, CHR 0xD8, CHR 0xAA] @ ''\<newline>''),
     (''file_received'',
      [CHR 0xD9, CHR 0x81, CHR 0xD8, CHR 0xA7, CHR 0xDB, CHR 0x8C, CHR 0xD9, CHR 0x84] @ '' ''
      @ [CHR 0xD8, CHR 0xAF, CHR 0xD8, CHR 0xB1, CHR 0xDB, CHR 0x8C, CHR 0xD8, CHR 0xA7, CHR 0xD9,
      CHR 0x81, CHR 0xD8, CHR 0xAA] @ '' '' @ [CHR 0xD8, CHR 0xB4, CHR 0xD8, CHR 0xAF]
      @ '': {}\<newline>'' @ [CHR 0xD8, CHR 0xA7, CHR 0xD9, CHR 0x86, CHR 0xD8, CHR 0xAF, CHR 0xD8,
      CHR 0xA7, CHR 0xD8, CHR 0xB2, CHR 0xD9, CHR 0x87] @ '': {:.2f} '' @ [CHR 0xD9, CHR 0x85,
      CHR 0xDA, CHR 0xAF, CHR 0xD8, CHR 0xA7, CHR 0xD8, CHR 0xA8, CHR 0xD8, CHR 0xA7, CHR 0xDB,
      CHR 0x8C, CHR 0xD8, CHR 0xAA] @ ''\<newline>\<newline>'' @ [CHR 0xD9, CHR 0x85, CHR 0xDB,
      CHR 0x8C, CHR 0xE2, CHR 0x80, CHR 0x8C, CHR 0xD8, CHR 0xAE, CHR 0xD9, CHR 0x88, CHR 0xD8,
      CHR 0xA7, CHR 0xD9, CHR 0x87, CHR 0xDB, CHR 0x8C, CHR 0xD8, CHR 0xAF] @ '' '' @ [CHR 0xD8,
      CHR 0xA8, CHR 0xD8, CHR 0xA7] @ '' '' @ [CHR 0xD8, CHR 0xA7, CHR 0xDB, CHR 0x8C, CHR 0xD9,
      CHR 0x86] @ '' '' @ [CHR 0xD9, CHR 0x81, CHR 0xD8, CHR 0xA7, CHR 0xDB, CHR 0x8C, CHR 0xD9,
      CHR 0x84] @ '' '' @ [CHR 0xDA, CHR 0x86, CHR 0xD9, CHR 0x87] @ '' '' @ [CHR 0xDA, CHR 0xA9,
      CHR 0xD8, CHR 0xA7, CHR 0xD8, CHR 0xB1, CHR 0xDB, CHR 0x8C] @ '' '' @ [CHR 0xD8, CHR 0xA7,
      CHR 0xD9, CHR 0x86, CHR 0xD8, CHR 0xAC, CHR 0xD8, CHR 0xA7, CHR 0xD9, CHR 0x85] @ '' ''
      @ [CHR 0xD8, CHR 0xAF, CHR 0xD9, CHR 0x87, CHR 0xDB, CHR 0x8C, CHR 0xD8, CHR 0xAF, CHR 0xD8,
      CHR 0x9F]),
     (''processing'',
      [CHR 0xD8, CHR 0xAF, CHR 0xD8, CHR 0xB1] @ '' '' @ [CHR 0xD8, CHR 0xAD, CHR 0xD8, CHR 0xA7,
      CHR 0xD9, CHR 0x84] @ '' '' @ [CHR 0xD9, CHR 0xBE, CHR 0xD8, CHR 0xB1, CHR 0xD8, CHR 0xAF,
      CHR 0xD8, CHR 0xA7, CHR 0xD8, CHR 0xB2, CHR 0xD8, CHR 0xB4] @ '' '' @ [CHR 0xD9, CHR 0x81,
      CHR 0xD8, CHR 0xA7, CHR 0xDB, CHR 0x8C, CHR 0xD9, CHR 0x84] @ '' '' @ [CHR 0xD8, CHR 0xB4,
      CHR 0xD9, CHR 0x85, CHR 0xD8, CHR 0xA7] @ ''... '' @ [CHR 0xD9, CHR 0x84, CHR 0xD8, CHR 0xB7,
      CHR 0xD9, CHR 0x81, CHR 0xD8, CHR 0xA7, CHR 0xD9, CHR 0x8B] @ '' '' @ [CHR 0xD8, CHR 0xB5,
      CHR 0xD8, CHR 0xA8, CHR 0xD8, CHR 0xB1] @ '' '' @ [CHR 0xDA, CHR 0xA9, CHR 0xD9, CHR 0x86,
      CHR 0xDB, CHR 0x8C, CHR 0xD8, CHR 0xAF] @ ''.''),
     (''compressing'',
      [CHR 0xD8, CHR 0xAF, CHR 0xD8, CHR 0xB1] @ '' '' @ [CHR 0xD8, CHR 0xAD, CHR 0xD8, CHR 0xA7,
      CHR 0xD9, CHR 0x84] @ '' '' @ [CHR 0xD9, CHR 0x81, CHR 0xD8, CHR 0xB4, CHR 0xD8, CHR 0xB1,
      CHR 0xD8, CHR 0xAF, CHR 0xD9, CHR 0x87, CHR 0xE2, CHR 0x80, CHR 0x8C, CHR 0xD8, CHR 0xB3,
      CHR 0xD8, CHR 0xA7, CHR 0xD8, CHR 0xB2, CHR 0xDB, CHR 0x8C] @ '' '' @ [CHR 0xD9, CHR 0x81,
      CHR 0xD8, CHR 0xA7, CHR 0xDB, CHR 0x8C, CHR 0xD9, CHR 0x84] @ '' '' @ [CHR 0xD8, CHR 0xB4,
      CHR 0xD9, CHR 0x85, CHR 0xD8, CHR 0xA7] @ '' '' @ [CHR 0xD8, CHR 0xA8, CHR 0xD9, CHR 0x87]
      @ '' {}...\<newline>\<newline>'' @ [CHR 0xD9, CHR 0xBE, CHR 0xDB, CHR 0x8C, CHR 0xD8,
      CHR 0xB4, CHR 0xD8, CHR 0xB1, CHR 0xD9, CHR 0x81, CHR 0xD8, CHR 0xAA] @ '': {}%''),
     (''extracting'',
      [CHR 0xD8, CHR 0xAF, CHR 0xD8, CHR 0xB1] @ '' '' @ [CHR 0xD8, CHR 0xAD, CHR 0xD8, CHR 0xA7,
      CHR 0xD9, CHR 0x84] @ '' '' @ [CHR 0xD8, CHR 0xA7, CHR 0xD8, CHR 0xB3, CHR 0xD8, CHR 0xAA,
      CHR 0xD8, CHR 0xAE, CHR 0xD8, CHR 0xB1, CHR 0xD8, CHR 0xA7, CHR 0xD8, CHR 0xAC] @ '' ''
      @ [CHR 0xD9, CHR 0x81, CHR 0xD8, CHR 0xA7, CHR 0xDB, CHR 0x8C, CHR 0xD9, CHR 0x84] @ '' ''
      @ [CHR 0xD8, CHR 0xB4, CHR 0xD9, CHR 0x85, CHR 0xD8, CHR 0xA7] @ ''...\<newline>\<newline>''
      @ [CHR 0xD9, CHR 0xBE, CHR 0xDB, CHR 0x8C, CHR 0xD8, CHR 0xB4, CHR 0xD8, CHR 0xB1, CHR 0xD9,
      CHR 0x81, CHR 0xD8, CHR 0xAA] @ '': {}%''),
     (''compression_complete'',
      [CHR 0xD9, CHR 0x81, CHR 0xD8, CHR 0xB4, CHR 0xD8, CHR 0xB1, CHR 0xD8, CHR 0xAF, CHR 0xD9,
      CHR 0x87, CHR 0xE2, CHR 0x80, CHR 0x8C, CHR 0xD8, CHR 0xB3, CHR 0xD8, CHR 0xA7, CHR 0xD8,
      CHR 0xB2, CHR 0xDB, CHR 0x8C] @ '' '' @ [CHR 0xDA, CHR 0xA9, CHR 0xD8, CHR 0xA7, CHR 0xD9,
      CHR 0x85, CHR 0xD9, CHR 0x84] @ '' '' @ [CHR 0xD8, CHR 0xB4, CHR 0xD8, CHR 0xAF] @ ''! ''
      @ [CHR 0xD8, CHR 0xAF, CHR 0xD8, CHR 0xB1] @ '' '' @ [CHR 0xD8, CHR 0xAD, CHR 0xD8, CHR 0xA7,
      CHR 0xD9, CHR 0x84] @ '' '' @ [CHR 0xD8, CHR 0xA7, CHR 0xD8, CHR 0xB1, CHR 0xD8, CHR 0xB3,
      CHR 0xD8, CHR 0xA7, CHR 0xD9, CHR 0x84] @ '' '' @ [CHR 0xD9, CHR 0x81, CHR 0xD8, CHR 0xA7,
      CHR 0xDB, CHR 0x8C, CHR 0xD9, CHR 0x84] @ '' '' @ [CHR 0xD9, CHR 0x81, CHR 0xD8, CHR 0xB4,
      CHR 0xD8, CHR 0xB1, CHR 0xD8, CHR 0xAF, CHR 0xD9, CHR 0x87] @ ''...''),
     (''extraction_complete'',
      [CHR 0xD8, CHR 0xA7, CHR 0xD8, CHR 0xB3, CHR 0xD8, CHR 0xAA, CHR 0xD8, CHR 0xAE, CHR 0xD8,
      CHR 0xB1, CHR 0xD8, CHR 0xA7, CHR 0xD8, CHR 0xAC] @ '' '' @ [CHR 0xDA, CHR 0xA9, CHR 0xD8,
      CHR 0xA7, CHR 0xD9, CHR 0x85, CHR 0xD9, CHR 0x84] @ '' '' @ [CHR 0xD8, CHR 0xB4, CHR 0xD8,
      CHR 0xAF] @ ''! '' @ [CHR 0xD8, CHR 0xAF, CHR 0xD8, CHR 0xB1] @ '' '' @ [CHR 0xD8, CHR 0xAD,
      CHR 0xD8, CHR 0xA7, CHR 0xD9, CHR 0x84] @ '' '' @ [CHR 0xD8, CHR 0xA7, CHR 0xD8, CHR 0xB1,
      CHR 0xD8, CHR 0xB3, CHR 0xD8, CHR 0xA7, CHR 0xD9, CHR 0x84] @ '' '' @ [CHR 0xD9, CHR 0x81,
      CHR 0xD8, CHR 0xA7, CHR 0xDB, CHR 0x8C, CHR 0xD9, CHR 0x84] @ ''('' @ [CHR 0xD9, CHR 0x87,
      CHR 0xD8, CHR 0xA7, CHR 0xDB, CHR 0x8C] @ '') '' @ [CHR 0xD8, CHR 0xA7, CHR 0xD8, CHR 0xB3,
      CHR 0xD8, CHR 0xAA, CHR 0xD8, CHR 0xAE, CHR 0xD8, CHR 0xB1, CHR 0xD8, CHR 0xA7, CHR 0xD8,
      CHR 0xAC] @ '' '' @ [CHR 0xD8, CHR 0xB4, CHR 0xD8, CHR 0xAF, CHR 0xD9, CHR 0x87] @ ''...''),
     (''extraction_too_many_files'',
      [CHR 0xD8, CHR 0xA7, CHR 0xD8, CHR 0xB3, CHR 0xD8, CHR 0xAA, CHR 0xD8, CHR 0xAE, CHR 0xD8,
      CHR 0xB1, CHR 0xD8, CHR 0xA7, CHR 0xD8, CHR 0xAC] @ '' '' @ [CHR 0xDA, CHR 0xA9, CHR 0xD8,
      CHR 0xA7, CHR 0xD9, CHR 0x85, CHR 0xD9, CHR 0x84] @ '' '' @ [CHR 0xD8, CHR 0xB4, CHR 0xD8,
      CHR 0xAF] @ ''! {} '' @ [CHR 0xD9, CHR 0x81, CHR 0xD8, CHR 0xA7, CHR 0xDB, CHR 0x8C, CHR 0xD9,
      CHR 0x84] @ '' '' @ [CHR 0xD9, CHR 0x88, CHR 0xD8, CHR 0xAC, CHR 0xD9, CHR 0x88, CHR 0xD8,
      CHR 0xAF] @ '' '' @ [CHR 0xD8, CHR 0xAF, CHR 0xD8, CHR 0xA7, CHR 0xD8, CHR 0xB1, CHR 0xD8,
      CHR 0xAF] @ ''. '' @ [CHR 0xD8, CHR 0xA7, CHR 0xD8, CHR 0xB1, CHR 0xD8, CHR 0xB3, CHR 0xD8,
      CHR 0xA7, CHR 0xD9, CHR 0x84] @ '' '' @ [CHR 0xD8, CHR 0xA2, CHR 0xD9, CHR 0x86, CHR 0xD9,
      CHR 0x87, CHR 0xD8, CHR 0xA7] @ '' '' @ [CHR 0xD8, CHR 0xA8, CHR 0xD9, CHR 0x87] @ '' ''
      @ [CHR 0xD8, CHR 0xB5, CHR 0xD9, CHR 0x88, CHR 0xD8, CHR 0xB1, CHR 0xD8, CHR 0xAA] @ '' ''
      @ [CHR 0xDB, CHR 0x8C, CHR 0xDA, CHR 0xA9] @ '' '' @ [CHR 0xD8, CHR 0xA2, CHR 0xD8, CHR 0xB1,
      CHR 0xD8, CHR 0xB4, CHR 0xDB, CHR 0x8C, CHR 0xD9, CHR 0x88] @ '' '' @ [CHR 0xD9, CHR 0x81,
      CHR 0xD8, CHR 0xB4, CHR 0xD8, CHR 0xB1, CHR 0xD8, CHR 0xAF, CHR 0xD9, CHR 0x87] @ ''...''),
     (''task_cancelled'',
      [CHR 0xD8, CHR 0xB9, CHR 0xD9, CHR 0x85, CHR 0xD9, CHR 0x84, CHR 0xDB, CHR 0x8C, CHR 0xD8,
      CHR 0xA7, CHR 0xD8, CHR 0xAA] @ '' '' @ [CHR 0xD8, CHR 0xA8, CHR 0xD8, CHR 0xA7] @ '' ''
      @ [CHR 0xD9, CHR 0x85, CHR 0xD9, CHR 0x88, CHR 0xD9, CHR 0x81, CHR 0xD9, CHR 0x82, CHR 0xDB,
      CHR 0x8C, CHR 0xD8, CHR 0xAA] @ '' '' @ [CHR 0xD9, CHR 0x84, CHR 0xD8, CHR 0xBA, CHR 0xD9,
      CHR 0x88] @ '' '' @ [CHR 0xD8, CHR 0xB4, CHR 0xD8, CHR 0xAF] @ ''.''),
     (''no_active_task'',
      [CHR 0xD9, CHR 0x87, CHR 0xDB, CHR 0x8C, CHR 0xDA, CHR 0x86] @ '' '' @ [CHR 0xD8, CHR 0xB9,
      CHR 0xD9, CHR 0x85, CHR 0xD9, CHR 0x84, CHR 0xDB, CHR 0x8C, CHR 0xD8, CHR 0xA7, CHR 0xD8,
      CHR 0xAA] @ '' '' @ [CHR 0xD9, CHR 0x81, CHR 0xD8, CHR 0xB9, CHR 0xD8, CHR 0xA7, CHR 0xD9,
      CHR 0x84, CHR 0xDB, CHR 0x8C] @ '' '' @ [CHR 0xD8, CHR 0xA8, CHR 0xD8, CHR 0xB1, CHR 0xD8,
      CHR 0xA7, CHR 0xDB, CHR 0x8C] @ '' '' @ [CHR 0xD9, CHR 0x84, CHR 0xD8, CHR 0xBA, CHR 0xD9,
      CHR 0x88] @ '' '' @ [CHR 0xD9, CHR 0x88, CHR 0xD8, CHR 0xAC, CHR 0xD9, CHR 0x88, CHR 0xD8,
      CHR 0xAF] @ '' '' @ [CHR 0xD9, CHR 0x86, CHR 0xD8, CHR 0xAF, CHR 0xD8, CHR 0xA7, CHR 0xD8,
      CHR 0xB1, CHR 0xD8, CHR 0xAF] @ ''.''),
     (''error_unsupported_format'',
      [CHR 0xD9, CHR 0x81, CHR 0xD8, CHR 0xB1, CHR 0xD9, CHR 0x85, CHR 0xD8, CHR 0xAA] @ '' ''
      @ [CHR 0xD9, CHR 0x81, CHR 0xD8, CHR 0xA7, CHR 0xDB, CHR 0x8C, CHR 0xD9, CHR 0x84] @ '' ''
      @ [CHR 0xD9, CHR 0xBE, CHR 0xD8, CHR 0xB4, CHR 0xD8, CHR 0xAA, CHR 0xDB, CHR 0x8C, CHR 0xD8,
      CHR 0xA8, CHR 0xD8, CHR 0xA7, CHR 0xD9, CHR 0x86, CHR 0xDB, CHR 0x8C] @ '' '' @ [CHR 0xD9,
      CHR 0x86, CHR 0xD9, CHR 0x85, CHR 0xDB, CHR 0x8C, CHR 0xE2, CHR 0x80, CHR 0x8C, CHR 0xD8,
      CHR 0xB4, CHR 0xD9, CHR 0x88, CHR 0xD8, CHR 0xAF] @ ''. '' @ [CHR 0xD9, CHR 0x81, CHR 0xD8,
      CHR 0xB1, CHR 0xD9, CHR 0x85, CHR 0xD8, CHR 0xAA, CHR 0xE2, CHR 0x80, CHR 0x8C, CHR 0xD9,
      CHR 0x87, CHR 0xD8, CHR 0xA7, CHR 0xDB, CHR 0x8C] @ '' '' @ [CHR 0xD9, CHR 0xBE, CHR 0xD8,
      CHR 0xB4, CHR 0xD8, CHR 0xAA, CHR 0xDB, CHR 0x8C, CHR 0xD8, CHR 0xA8, CHR 0xD8, CHR 0xA7,
      CHR 0xD9, CHR 0x86, CHR 0xDB, CHR 0x8C] @ '' '' @ [CHR 0xD8, CHR 0xB4, CHR 0xD8, CHR 0xAF,
      CHR 0xD9, CHR 0x87] @ '' '' @ [CHR 0xD8, CHR 0xA8, CHR 0xD8, CHR 0xB1, CHR 0xD8, CHR 0xA7,
      CHR 0xDB, CHR 0x8C] @ '' '' @ [CHR 0xD8, CHR 0xA7, CHR 0xD8, CHR 0xB3, CHR 0xD8, CHR 0xAA,
      CHR 0xD8, CHR 0xAE, CHR 0xD8, CHR 0xB1, CHR 0xD8, CHR 0xA7, CHR 0xD8, CHR 0xAC] @ '': zip''
      @ [CHR 0xD8, CHR 0x8C] @ '' tar.gz'' @ [CHR 0xD8, CHR 0x8C] @ '' rar'' @ [CHR 0xD8, CHR 0x8C]
      @ '' 7z''),
     (''error_processing'',
      [CHR 0xD8, CHR 0xAE, CHR 0xD8, CHR 0xB7, CHR 0xD8, CHR 0xA7] @ '' '' @ [CHR 0xD8, CHR 0xAF,
      CHR 0xD8, CHR 0xB1] @ '' '' @ [CHR 0xD9, CHR 0xBE, CHR 0xD8, CHR 0xB1, CHR 0xD8, CHR 0xAF,
      CHR 0xD8, CHR 0xA7, CHR 0xD8, CHR 0xB2, CHR 0xD8, CHR 0xB4] @ '' '' @ [CHR 0xD9, CHR 0x81,
      CHR 0xD8, CHR 0xA7, CHR 0xDB, CHR 0x8C, CHR 0xD9, CHR 0x84] @ '' '' @ [CHR 0xD8, CHR 0xB4,
      CHR 0xD9, CHR 0x85, CHR 0xD8, CHR 0xA7] @ '': {}''),
     (''error_file_corrupted'',
      [CHR 0xD8, CHR 0xA8, CHR 0xD9, CHR 0x87] @ '' '' @ [CHR 0xD9, CHR 0x86, CHR 0xD8, CHR 0xB8,
      CHR 0xD8, CHR 0xB1] @ '' '' @ [CHR 0xD9, CHR 0x85, CHR 0xDB, CHR 0x8C, CHR 0xE2, CHR 0x80,
      CHR 0x8C, CHR 0xD8, CHR 0xB1, CHR 0xD8, CHR 0xB3, CHR 0xD8, CHR 0xAF] @ '' '' @ [CHR 0xD9,
      CHR 0x81, CHR 0xD8, CHR 0xA7, CHR 0xDB, CHR 0x8C, CHR 0xD9, CHR 0x84] @ '' '' @ [CHR 0xD8,
      CHR 0xAE, CHR 0xD8, CHR 0xB1, CHR 0xD8, CHR 0xA7, CHR 0xD8, CHR 0xA8] @ '' '' @ [CHR 0xDB,
      CHR 0x8C, CHR 0xD8, CHR 0xA7] @ '' '' @ [CHR 0xD9, CHR 0x86, CHR 0xD8, CHR 0xA7, CHR 0xD9,
      CHR 0x85, CHR 0xD8, CHR 0xB9, CHR 0xD8, CHR 0xAA, CHR 0xD8, CHR 0xA8, CHR 0xD8, CHR 0xB1]
      @ '' '' @ [CHR 0xD8, CHR 0xA7, CHR 0xD8, CHR 0xB3, CHR 0xD8, CHR 0xAA] @ ''.''),
     (''error_extraction'',
      [CHR 0xD8, CHR 0xA7, CHR 0xD8, CHR 0xB3, CHR 0xD8, CHR 0xAA, CHR 0xD8, CHR 0xAE, CHR 0xD8,
      CHR 0xB1, CHR 0xD8, CHR 0xA7, CHR 0xD8, CHR 0xAC] @ '' '' @ [CHR 0xD9, CHR 0x81, CHR 0xD8,
      CHR 0xA7, CHR 0xDB, CHR 0x8C, CHR 0xD9, CHR 0x84] @ '' '' @ [CHR 0xD8, CHR 0xA7, CHR 0xD9,
      CHR 0x85, CHR 0xDA, CHR 0xA9, CHR 0xD8, CHR 0xA7, CHR 0xD9, CHR 0x86, CHR 0xE2, CHR 0x80,
      CHR 0x8C, CHR 0xD9, CHR 0xBE, CHR 0xD8, CHR 0xB0, CHR 0xDB, CHR 0x8C, CHR 0xD8, CHR 0xB1]
      @ '' '' @ [CHR 0xD9, CHR 0x86, CHR 0xDB, CHR 0x8C, CHR 0xD8, CHR 0xB3, CHR 0xD8, CHR 0xAA]
      @ ''. '' @ [CHR 0xD9, CHR 0x85, CHR 0xD9, CHR 0x85, CHR 0xDA, CHR 0xA9, CHR 0xD9, CHR 0x86]
      @ '' '' @ [CHR 0xD8, CHR 0xA7, CHR 0xD8, CHR 0xB3, CHR 0xD8, CHR 0xAA] @ '' '' @ [CHR 0xD9,
      CHR 0x81, CHR 0xD8, CHR 0xA7, CHR 0xDB, CHR 0x8C, CHR 0xD9, CHR 0x84] @ '' '' @ [CHR 0xD8,
      CHR 0xAF, CHR 0xD8, CHR 0xA7, CHR 0xD8, CHR 0xB1, CHR 0xD8, CHR 0xA7, CHR 0xDB, CHR 0x8C]
      @ '' '' @ [CHR 0xD8, CHR 0xB1, CHR 0xD9, CHR 0x85, CHR 0xD8, CHR 0xB2] @ '' '' @ [CHR 0xD8,
      CHR 0xB9, CHR 0xD8, CHR 0xA8, CHR 0xD9, CHR 0x88, CHR 0xD8, CHR 0xB1] @ '' '' @ [CHR 0xDB,
      CHR 0x8C, CHR 0xD8, CHR 0xA7] @ '' '' @ [CHR 0xD8, CHR 0xAE, CHR 0xD8, CHR 0xB1, CHR 0xD8,
      CHR 0xA7, CHR 0xD8, CHR 0xA8] @ '' '' @ [CHR 0xD8, CHR 0xA8, CHR 0xD8, CHR 0xA7, CHR 0xD8,
      CHR 0xB4, CHR 0xD8, CHR 0xAF] @ ''.''),
     (''error_compression'',
      [CHR 0xD9, CHR 0x81, CHR 0xD8, CHR 0xB4, CHR 0xD8, CHR 0xB1, CHR 0xD8, CHR 0xAF, CHR 0xD9,
      CHR 0x87, CHR 0xE2, CHR 0x80, CHR 0x8C, CHR 0xD8, CHR 0xB3, CHR 0xD8, CHR 0xA7, CHR 0xD8,
      CHR 0xB2, CHR 0xDB, CHR 0x8C] @ '' '' @ [CHR 0xD9, CHR 0x81, CHR 0xD8, CHR 0xA7, CHR 0xDB,
      CHR 0x8C, CHR 0xD9, CHR 0x84] @ '' '' @ [CHR 0xD8, CHR 0xA7, CHR 0xD9, CHR 0x85, CHR 0xDA,
      CHR 0xA9, CHR 0xD8, CHR 0xA7, CHR 0xD9, CHR 0x86, CHR 0xE2, CHR 0x80, CHR 0x8C, CHR 0xD9,
      CHR 0xBE, CHR 0xD8, CHR 0xB0, CHR 0xDB, CHR 0x8C, CHR 0xD8, CHR 0xB1] @ '' '' @ [CHR 0xD9,
      CHR 0x86, CHR 0xDB, CHR 0x8C, CHR 0xD8, CHR 0xB3, CHR 0xD8, CHR 0xAA] @ '': {}''),
     (''compress_format_select'',
      [CHR 0xD9, CHR 0x81, CHR 0xD8, CHR 0xB1, CHR 0xD9, CHR 0x85, CHR 0xD8, CHR 0xAA] @ '' ''
      @ [CHR 0xD9, CHR 0x81, CHR 0xD8, CHR 0xB4, CHR 0xD8, CHR 0xB1, CHR 0xD8, CHR 0xAF, CHR 0xD9,
      CHR 0x87, CHR 0xE2, CHR 0x80, CHR 0x8C, CHR 0xD8, CHR 0xB3, CHR 0xD8, CHR 0xA7, CHR 0xD8,
      CHR 0xB2, CHR 0xDB, CHR 0x8C] @ '' '' @ [CHR 0xD8, CHR 0xB1, CHR 0xD8, CHR 0xA7] @ '' ''
      @ [CHR 0xD8, CHR 0xA7, CHR 0xD9, CHR 0x86, CHR 0xD8, CHR 0xAA, CHR 0xD8, CHR 0xAE, CHR 0xD8,
      CHR 0xA7, CHR 0xD8, CHR 0xA8] @ '' '' @ [CHR 0xDA, CHR 0xA9, CHR 0xD9, CHR 0x86, CHR 0xDB,
      CHR 0x8C, CHR 0xD8, CHR 0xAF] @ '':''),
     (''file_too_large_telegram'',
      [CHR 0xD9, CHR 0x81, CHR 0xD8, CHR 0xA7, CHR 0xDB, CHR 0x8C, CHR 0xD9, CHR 0x84] @ '' ''
      @ [CHR 0xD8, CHR 0xA8, CHR 0xD8, CHR 0xB1, CHR 0xD8, CHR 0xA7, CHR 0xDB, CHR 0x8C] @ '' ''
      @ [CHR 0xD8, CHR 0xA7, CHR 0xD8, CHR 0xB1, CHR 0xD8, CHR 0xB3, CHR 0xD8, CHR 0xA7, CHR 0xD9,
      CHR 0x84] @ '' '' @ [CHR 0xD8, CHR 0xA7, CHR 0xD8, CHR 0xB2] @ '' '' @ [CHR 0xD8, CHR 0xB7,
      CHR 0xD8, CHR 0xB1, CHR 0xDB, CHR 0x8C, CHR 0xD9, CHR 0x82] @ '' '' @ [CHR 0xD8, CHR 0xAA,
      CHR 0xD9, CHR 0x84, CHR 0xDA, CHR 0xAF, CHR 0xD8, CHR 0xB1, CHR 0xD8, CHR 0xA7, CHR 0xD9,
      CHR 0x85] @ '' '' @ [CHR 0xD8, CHR 0xA8, CHR 0xD8, CHR 0xB3, CHR 0xDB, CHR 0x8C, CHR 0xD8,
      CHR 0xA7, CHR 0xD8, CHR 0xB1] @ '' '' @ [CHR 0xD8, CHR 0xA8, CHR 0xD8, CHR 0xB2, CHR 0xD8,
      CHR 0xB1, CHR 0xDA, CHR 0xAF] @ '' '' @ [CHR 0xD8, CHR 0xA7, CHR 0xD8, CHR 0xB3, CHR 0xD8,
      CHR 0xAA] @ ''. '' @ [CHR 0xD8, CHR 0xA2, CHR 0xD9, CHR 0x86] @ '' '' @ [CHR 0xD8, CHR 0xB1,
      CHR 0xD8, CHR 0xA7] @ '' '' @ [CHR 0xD8, CHR 0xA8, CHR 0xD9, CHR 0x87] @ '' '' @ [CHR 0xD9,
      CHR 0x82, CHR 0xD8, CHR 0xB3, CHR 0xD9, CHR 0x85, CHR 0xD8, CHR 0xAA, CHR 0xE2, CHR 0x80,
      CHR 0x8C, CHR 0xD9, CHR 0x87, CHR 0xD8, CHR 0xA7, CHR 0xDB, CHR 0x8C] @ '' '' @ [CHR 0xDA,
      CHR 0xA9, CHR 0xD9, CHR 0x88, CHR 0xDA, CHR 0x86, CHR 0xDA, CHR 0xA9, CHR 0xD8, CHR 0xAA,
      CHR 0xD8, CHR 0xB1] @ '' '' @ [CHR 0xD8, CHR 0xAA, CHR 0xD9, CHR 0x82, CHR 0xD8, CHR 0xB3,
      CHR 0xDB, CHR 0x8C, CHR 0xD9, CHR 0x85] @ '' '' @ [CHR 0xD9, CHR 0x85, CHR 0xDB, CHR 0x8C,
      CHR 0xE2, CHR 0x80, CHR 0x8C, CHR 0xDA, CHR 0xA9, CHR 0xD9, CHR 0x86, CHR 0xD9, CHR 0x85]
      @ ''.''),
     (''split_part'',
      [CHR 0xD8, CHR 0xA8, CHR 0xD8, CHR 0xAE, CHR 0xD8, CHR 0xB4] @ '' {}/{} '' @ [CHR 0xD8,
      CHR 0xA7, CHR 0xD8, CHR 0xB2] @ '' '' @ [CHR 0xD8, CHR 0xA7, CHR 0xD8, CHR 0xB3, CHR 0xD8,
      CHR 0xAA, CHR 0xD8, CHR 0xAE, CHR 0xD8, CHR 0xB1, CHR 0xD8, CHR 0xA7, CHR 0xD8, CHR 0xAC]
      @ '' '' @ [CHR 0xD8, CHR 0xB4, CHR 0xD9, CHR 0x85, CHR 0xD8, CHR 0xA7]),
     (''preview_content'',
      [CHR 0xD9, CHR 0xBE, CHR 0xDB, CHR 0x8C, CHR 0xD8, CHR 0xB4, CHR 0xE2, CHR 0x80, CHR 0x8C,
      CHR 0xD9, CHR 0x86, CHR 0xD9, CHR 0x85, CHR 0xD8, CHR 0xA7, CHR 0xDB, CHR 0x8C, CHR 0xD8,
      CHR 0xB4] @ '' '' @ [CHR 0xD9, CHR 0x85, CHR 0xD8, CHR 0xAD, CHR 0xD8, CHR 0xAA, CHR 0xD9,
      CHR 0x88, CHR 0xD8, CHR 0xA7, CHR 0xDB, CHR 0x8C] @ '' '' @ [CHR 0xD9, CHR 0x81, CHR 0xD8,
      CHR 0xA7, CHR 0xDB, CHR 0x8C, CHR 0xD9, CHR 0x84] @ '':\<newline>\<newline>'' @ [CHR 0x60,
      CHR 0x60, CHR 0x60] @ ''\<newline>{}\<newline>'' @ [CHR 0x60, CHR 0x60, CHR 0x60]),
     (''error_general'',
      [CHR 0xD8, CHR 0xAE, CHR 0xD8, CHR 0xB7, CHR 0xD8, CHR 0xA7, CHR 0xDB, CHR 0x8C, CHR 0xDB,
      CHR 0x8C] @ '' '' @ [CHR 0xD8, CHR 0xB1, CHR 0xD8, CHR 0xAE] @ '' '' @ [CHR 0xD8, CHR 0xAF,
      CHR 0xD8, CHR 0xA7, CHR 0xD8, CHR 0xAF] @ '': {}. '' @ [CHR 0xD9, CHR 0x84, CHR 0xD8,
      CHR 0xB7, CHR 0xD9, CHR 0x81, CHR 0xD8, CHR 0xA7, CHR 0xD9, CHR 0x8B] @ '' '' @ [CHR 0xD8,
      CHR 0xAF, CHR 0xD9, CHR 0x88, CHR 0xD8, CHR 0xA8, CHR 0xD8, CHR 0xA7, CHR 0xD8, CHR 0xB1,
      CHR 0xD9, CHR 0x87] @ '' '' @ [CHR 0xD8, CHR 0xAA, CHR 0xD9, CHR 0x84, CHR 0xD8, CHR 0xA7,
      CHR 0xD8, CHR 0xB4] @ '' '' @ [CHR 0xDA, CHR 0xA9, CHR 0xD9, CHR 0x86, CHR 0xDB, CHR 0x8C,
      CHR 0xD8, CHR 0xAF] @ ''.''),
     (''timeout'',
      [CHR 0xD8, CHR 0xB2, CHR 0xD9, CHR 0x85, CHR 0xD8, CHR 0xA7, CHR 0xD9, CHR 0x86] @ '' ''
      @ [CHR 0xD8, CHR 0xB9, CHR 0xD9, CHR 0x85, CHR 0xD9, CHR 0x84, CHR 0xDB, CHR 0x8C, CHR 0xD8,
      CHR 0xA7, CHR 0xD8, CHR 0xAA] @ '' '' @ [CHR 0xD8, CHR 0xA8, CHR 0xD9, CHR 0x87] @ '' ''
      @ [CHR 0xD9, CHR 0xBE, CHR 0xD8, CHR 0xA7, CHR 0xDB, CHR 0x8C, CHR 0xD8, CHR 0xA7, CHR 0xD9,
      CHR 0x86] @ '' '' @ [CHR 0xD8, CHR 0xB1, CHR 0xD8, CHR 0xB3, CHR 0xDB, CHR 0x8C, CHR 0xD8,
      CHR 0xAF] @ ''. '' @ [CHR 0xD9, CHR 0x84, CHR 0xD8, CHR 0xB7, CHR 0xD9, CHR 0x81, CHR 0xD8,
      CHR 0xA7, CHR 0xD9, CHR 0x8B] @ '' '' @ [CHR 0xD8, CHR 0xA8, CHR 0xD8, CHR 0xA7] @ '' ''
      @ [CHR 0xD9, CHR 0x81, CHR 0xD8, CHR 0xA7, CHR 0xDB, CHR 0x8C, CHR 0xD9, CHR 0x84] @ '' ''
      @ [CHR 0xDA, CHR 0xA9, CHR 0xD9, CHR 0x88, CHR 0xDA, CHR 0x86, CHR 0xDA, CHR 0xA9, CHR 0xD8,
      CHR 0xAA, CHR 0xD8, CHR 0xB1, CHR 0xDB, CHR 0x8C] @ '' '' @ [CHR 0xD8, CHR 0xA7, CHR 0xD9,
      CHR 0x85, CHR 0xD8, CHR 0xAA, CHR 0xD8, CHR 0xAD, CHR 0xD8, CHR 0xA7, CHR 0xD9, CHR 0x86]
      @ '' '' @ [CHR 0xDA, CHR 0xA9, CHR 0xD9, CHR 0x86, CHR 0xDB, CHR 0x8C, CHR 0xD8, CHR 0xAF]
      @ ''.'')
   ]"
definition MESSAGES :: "(string \<times> (string \<times> string) list) list" where
  "MESSAGES = [(''en'', MESSAGES_en), (''fa'', MESSAGES_fa)]"

subsection \<open>\<open>get_message\<close>\<close>

text \<open>
  \<open>get_message(key, lang, **kwargs)\<close>. An unknown language becomes \<open>en\<close>; a key the
  table lacks stands for its own message; with keyword arguments the message is
  formatted, and of the exceptions \<open>format\<close> raises only KeyError and ValueError are
  caught (the unformatted message is returned then).
\<close>

definition get_message ::
  "'v render \<Rightarrow> string \<Rightarrow> string \<Rightarrow> (string \<times> 'v) list \<Rightarrow> py_exc + string" where
  "get_message render key lang kwargs =
     (let lang1 = (if map_of MESSAGES lang = None then ''en'' else lang) in
      case map_of MESSAGES lang1 of
        None \<Rightarrow> Inl KeyError
      | Some table \<Rightarrow>
          (let message = (case map_of table key of Some m \<Rightarrow> m | None \<Rightarrow> key) in
           if kwargs \<noteq> [] then
             (case py_format render kwargs message of
                Inr s \<Rightarrow> Inr s
              | Inl e \<Rightarrow> if e = KeyError \<or> e = ValueError then Inr message else Inl e)
           else Inr message))"

section \<open>config.py\<close>

definition TEMP_DIR :: string where
  "TEMP_DIR = ''temp_files''"

definition CHUNK_SIZE :: nat where
  "CHUNK_SIZE = 10 * 1024 * 1024"

definition MAX_CONCURRENT_TASKS :: int where
  "MAX_CONCURRENT_TASKS = 5"

definition COMPRESSION_FORMATS :: "(string \<times> string) list" where
  "COMPRESSION_FORMATS =
     [(''zip'', ''.zip''), (''tar.gz'', ''.tar.gz''), (''rar'', ''.rar''), (''7z'', ''.7z'')]"

section \<open>The library functions of \<open>os.path\<close> (POSIX)\<close>

text \<open>\<open>str.rfind\<close> for a single character: the index of its last occurrence, or \<open>-1\<close>.\<close>

definition rfind :: "char \<Rightarrow> string \<Rightarrow> int" where
  "rfind c p =
     (if c \<in> set p then int (length p) - 1 - int (length (takeWhile (\<lambda>d. d \<noteq> c) (rev p)))
      else - 1)"

text \<open>\<open>os.path.basename(p)\<close> is \<open>p[p.rfind('/') + 1:]\<close>.\<close>

definition basename :: "string \<Rightarrow> string" where
  "basename p = drop (nat (rfind CHR ''/'' p + 1)) p"

text \<open>
  \<open>os.path.splitext(p)\<close>: the extension starts at the last dot, if that dot comes after
  the last separator and some character between the separator and the dot is not a dot
  (leading dots belong to the root).
\<close>

definition splitext :: "string \<Rightarrow> string \<times> string" where
  "splitext p =
     (let sepIndex = rfind CHR ''/'' p;
          dotIndex = rfind CHR ''.'' p
      in if dotIndex > sepIndex \<and>
            list_ex (\<lambda>c. c \<noteq> CHR ''.'')
              (take (nat (dotIndex - (sepIndex + 1))) (drop (nat (sepIndex + 1)) p))
         then (take (nat dotIndex) p, drop (nat dotIndex) p)
         else (p, []))"

text \<open>\<open>os.path.join(a, b)\<close> for two components.\<close>

definition path_join :: "string \<Rightarrow> string \<Rightarrow> string" where
  "path_join a b =
     (if take 1 b = ''/'' then b
      else if a = [] \<or> last a = CHR ''/'' then a @ b
      else a @ ''/'' @ b)"

section \<open>zip-utils.py\<close>

subsection \<open>Files and the observable effects of a compression\<close>

text \<open>
  File contents are byte strings. An archive is kept as the list of its members (name and
  content) in the order they were added. The world a compression acts on is the file
  system (a map from paths to files) and the list of values passed to the progress
  callback so far, oldest first.
\<close>

type_synonym bytes = "8 word list"

datatype fsfile = Plain bytes | Archive "(string \<times> bytes) list"

record world =
  fs :: "string \<rightharpoonup> fsfile"
  events :: "int list"

subsection \<open>\<open>CompressionTask\<close>\<close>

text \<open>
  The fields of the class. \<open>progress_callback\<close> records whether a callback was given; the
  values it is called with are appended to \<open>events\<close>.
\<close>

record CompressionTask =
  file_path :: string
  output_format :: string
  progress_callback :: bool
  canceled :: bool
  total_size :: int
  processed_size :: int

text \<open>
  \<open>__init__\<close>. The input file is given by its content, \<open>None\<close> when no file exists at
  \<open>file_path\<close>; \<open>total_size\<close> is its size, or 0 when it does not exist.
\<close>

definition CompressionTask_init ::
  "string \<Rightarrow> bytes option \<Rightarrow> string \<Rightarrow> bool \<Rightarrow> CompressionTask" where
  "CompressionTask_init path content fmt callback =
     \<lparr>file_path = path, output_format = fmt, progress_callback = callback, canceled = False,
      total_size = (case content of Some f \<Rightarrow> int (length f) | None \<Rightarrow> 0),
      processed_size = 0\<rparr>"

text \<open>Python's \<open>int(x)\<close> on a float truncates towards zero.\<close>

definition py_int :: "real \<Rightarrow> int" where
  "py_int x = (if 0 \<le> x then \<lfloor>x\<rfloor> else \<lceil>x\<rceil>)"

text \<open>
  \<open>update_progress(chunk_size)\<close>. A cancelled task raises before anything changes.
  Otherwise the processed size grows, and when the total size is positive and a callback
  was given, the callback is called with
  \<open>min(int((processed_size / total_size) * 100), 100)\<close>. The quotient is a Python float;
  the model computes it exactly.
\<close>

definition update_progress ::
  "CompressionTask \<Rightarrow> int \<Rightarrow> world \<Rightarrow> py_exc + (CompressionTask \<times> world)" where
  "update_progress task chunk_size w =
     (if canceled task then Inl CancelledError
      else
        let task1 = task\<lparr>processed_size := processed_size task + chunk_size\<rparr> in
        if total_size task1 > 0 \<and> progress_callback task1 then
          let progress =
                min (py_int ((real_of_int (processed_size task1) / real_of_int (total_size task1))
                             * 100)) 100
          in Inr (task1, w\<lparr>events := events w @ [progress]\<rparr>)
        else Inr (task1, w))"

text \<open>\<open>cancel()\<close>.\<close>

definition cancel :: "CompressionTask \<Rightarrow> CompressionTask" where
  "cancel task = task\<lparr>canceled := True\<rparr>"

subsection \<open>\<open>compress_file\<close>\<close>

text \<open>
  The \<open>while True\<close> loop of the zip branch (lines 89 to 106). \<open>f\<close> is what is left to
  read of the input, \<open>zipf\<close> the members written to the archive so far. Each round reads
  up to \<open>CHUNK_SIZE\<close> bytes and stops on an empty read; it overwrites the temporary chunk
  file with the chunk, adds the chunk file to the archive under the name \<open>file_name\<close>
  (a new member every time), and only then calls \<open>update_progress\<close>, whose exception ends
  the loop. The result is the exception raised, if any, the members and the world.
\<close>

function zip_loop ::
  "CompressionTask \<Rightarrow> string \<Rightarrow> string \<Rightarrow> bytes \<Rightarrow> (string \<times> bytes) list \<Rightarrow> world
     \<Rightarrow> py_exc option \<times> (string \<times> bytes) list \<times> world" where
  "zip_loop task file_name temp_chunk_path f zipf w =
     (let chunk = take CHUNK_SIZE f in
      if chunk = [] then (None, zipf, w)
      else
        let w1 = w\<lparr>fs := (fs w)(temp_chunk_path \<mapsto> Plain chunk)\<rparr>;
            zipf1 = zipf @ [(file_name, chunk)]
        in case update_progress task (int (length chunk)) w1 of
             Inl e \<Rightarrow> (Some e, zipf1, w1)
           | Inr (task1, w2) \<Rightarrow>
               zip_loop task1 file_name temp_chunk_path (drop CHUNK_SIZE f) zipf1 w2)"
  by pat_completeness auto
termination
  by (relation "measure (\<lambda>(task, file_name, temp_chunk_path, f, zipf, w). length f)")
     (auto simp: CHUNK_SIZE_def)

declare zip_loop.simps [simp del]

text \<open>
  The zip branch (lines 76 to 110) for a given task. Opening the archive for writing
  creates it; \<open>os.path.getsize\<close> raises when the input does not exist. After the loop the
  temporary chunk file is removed if it exists; an exception from the loop skips the
  removal. Leaving the \<open>with\<close> block closes the archive on either way out, which
  writes the members to \<open>output_path\<close>.
\<close>

definition zip_branch ::
  "CompressionTask \<Rightarrow> string \<Rightarrow> string \<Rightarrow> bytes option \<Rightarrow> world \<Rightarrow> py_exc option \<times> world" where
  "zip_branch task file_name output_path content w =
     (case content of
        None \<Rightarrow> (Some OSError, w\<lparr>fs := (fs w)(output_path \<mapsto> Archive [])\<rparr>)
      | Some f \<Rightarrow>
          let temp_chunk_path = path_join TEMP_DIR (''chunk_'' @ file_name) in
          (case zip_loop task file_name temp_chunk_path f [] w of
             (Some e, zipf, w1) \<Rightarrow> (Some e, w1\<lparr>fs := (fs w1)(output_path \<mapsto> Archive zipf)\<rparr>)
           | (None, zipf, w1) \<Rightarrow>
               let w2 = (if temp_chunk_path \<in> dom (fs w1)
                         then w1\<lparr>fs := (fs w1)(temp_chunk_path := None)\<rparr> else w1)
               in (None, w2\<lparr>fs := (fs w2)(output_path \<mapsto> Archive zipf)\<rparr>)))"

text \<open>
  The tar.gz branch (lines 114 to 119): the whole file is added as one member, then
  \<open>update_progress(task.total_size)\<close> is called once. The archive is closed on either way
  out of the \<open>with\<close> block.
\<close>

definition tar_branch ::
  "CompressionTask \<Rightarrow> string \<Rightarrow> string \<Rightarrow> bytes option \<Rightarrow> world \<Rightarrow> py_exc option \<times> world" where
  "tar_branch task file_name output_path content w =
     (case content of
        None \<Rightarrow> (Some OSError, w\<lparr>fs := (fs w)(output_path \<mapsto> Archive [])\<rparr>)
      | Some f \<Rightarrow>
          let w1 = w\<lparr>fs := (fs w)(output_path \<mapsto> Archive [(file_name, f)])\<rparr> in
          (case update_progress task (total_size task) w1 of
             Inl e \<Rightarrow> (Some e, w1)
           | Inr (task1, w2) \<Rightarrow> (None, w2)))"

text \<open>The 7z branch (lines 123 to 127) has the same shape.\<close>

definition sevenz_branch ::
  "CompressionTask \<Rightarrow> string \<Rightarrow> string \<Rightarrow> bytes option \<Rightarrow> world \<Rightarrow> py_exc option \<times> world" where
  "sevenz_branch task file_name output_path content w =
     (case content of
        None \<Rightarrow> (Some OSError, w\<lparr>fs := (fs w)(output_path \<mapsto> Archive [])\<rparr>)
      | Some f \<Rightarrow>
          let w1 = w\<lparr>fs := (fs w)(output_path \<mapsto> Archive [(file_name, f)])\<rparr> in
          (case update_progress task (total_size task) w1 of
             Inl e \<Rightarrow> (Some e, w1)
           | Inr (task1, w2) \<Rightarrow> (None, w2)))"

text \<open>The two paths \<open>compress_file\<close> computes (lines 71 and 87).\<close>

definition output_path_of :: "string \<Rightarrow> string \<Rightarrow> string" where
  "output_path_of path ext = path_join TEMP_DIR (fst (splitext (basename path)) @ ext)"

definition temp_chunk_path_of :: "string \<Rightarrow> string" where
  "temp_chunk_path_of path = path_join TEMP_DIR (''chunk_'' @ basename path)"

text \<open>
  \<open>compress_file(file_path, output_format, progress_callback)\<close>. The content of the input
  file is an argument (\<open>None\<close>: no such file). An \<open>output_format\<close> that is not a key of
  \<open>COMPRESSION_FORMATS\<close> raises KeyError at line 71, before the \<open>try\<close>.

  The source file ends inside the rar branch: that branch, the handlers of the \<open>try\<close>
  statement and the \<open>return\<close> are not in it. The rar branch is the parameter
  \<open>rar_branch\<close>; it is the last alternative, since the lookup at line 71 leaves no other
  format. The result is \<open>output_path\<close> when the body of the \<open>try\<close> completes (what the
  docstring says and \<open>compress_callback\<close> uses), and otherwise the exception as it leaves
  the body.
\<close>

definition compress_file ::
  "(CompressionTask \<Rightarrow> string \<Rightarrow> bytes option \<Rightarrow> world \<Rightarrow> py_exc option \<times> world)
     \<Rightarrow> string \<Rightarrow> bytes option \<Rightarrow> string \<Rightarrow> bool \<Rightarrow> world \<Rightarrow> (py_exc + string) \<times> world" where
  "compress_file rar_branch path content fmt callback w =
     (let task = CompressionTask_init path content fmt callback;
          file_name = basename path
      in case map_of COMPRESSION_FORMATS fmt of
           None \<Rightarrow> (Inl KeyError, w)
         | Some ext \<Rightarrow>
             let output_path = output_path_of path ext;
                 (exc, w1) =
                   (if fmt = ''zip'' then zip_branch task file_name output_path content w
                    else if fmt = ''tar.gz'' then tar_branch task file_name output_path content w
                    else if fmt = ''7z'' then sevenz_branch task file_name output_path content w
                    else rar_branch task output_path content w)
             in ((case exc of None \<Rightarrow> Inr output_path | Some e \<Rightarrow> Inl e), w1))"

subsection \<open>Describing a run of the loop\<close>

text \<open>
  The successive results of \<open>f.read(n)\<close> on a file with content \<open>xs\<close>, up to the empty
  read that ends the loop.
\<close>

function chunks :: "nat \<Rightarrow> 'a list \<Rightarrow> 'a list list" where
  "chunks n xs = (if n = 0 \<or> xs = [] then [] else take n xs # chunks n (drop n xs))"
  by pat_completeness auto
termination
  by (relation "measure (\<lambda>(n, xs). length xs)") auto

declare chunks.simps [simp del]

text \<open>The values of \<open>processed_size\<close> after each chunk, starting from \<open>p\<close>.\<close>

fun processed_after :: "int \<Rightarrow> 'a list list \<Rightarrow> int list" where
  "processed_after p [] = []"
| "processed_after p (c # cs) = (p + int (length c)) # processed_after (p + int (length c)) cs"

text \<open>The percentage \<open>update_progress\<close> reports for a total \<open>t\<close> and a processed size \<open>p\<close>.\<close>

definition percent_of :: "int \<Rightarrow> int \<Rightarrow> int" where
  "percent_of t p = min (py_int ((real_of_int p / real_of_int t) * 100)) 100"

text \<open>The progress values an operation added to the world.\<close>

definition emitted :: "world \<Rightarrow> world \<Rightarrow> int list" where
  "emitted w w' = drop (length (events w)) (events w')"

text \<open>
  A stand-in for the rar branch in closed statements about the other formats: the
  external tool is missing and the branch raises.
\<close>

definition rar_unavailable ::
  "CompressionTask \<Rightarrow> string \<Rightarrow> bytes option \<Rightarrow> world \<Rightarrow> py_exc option \<times> world" where
  "rar_unavailable task output_path content w = (Some OSError, w)"

text \<open>The world before anything happened.\<close>

definition world0 :: world where
  "world0 = \<lparr>fs = Map.empty, events = []\<rparr>"

subsection \<open>Extraction\<close>

text \<open>
  Modelled from the spec: \<open>extract_archive\<close> is not in the source (zip-utils.py ends inside
  \<open>compress_file\<close>). The spec's \<open>extract(inputPath, destDir, onProgress)\<close> validates that
  the input is an archive (\<open>InvalidArchive\<close> otherwise, nothing written), rejects the whole
  archive when a member path resolves outside \<open>destDir\<close> after normalisation
  (\<open>UnsafeArchive\<close>, nothing written), extracts the members one at a time in their order,
  reporting \<open>completedMembers / totalMembers * 100\<close> after each, and returns the list of
  extracted paths. A member extracted to a path that exists replaces what was there.
\<close>

datatype failure = InvalidArchive | UnsafeArchive

fun split_path :: "string \<Rightarrow> string list" where
  "split_path [] = [[]]"
| "split_path (c # cs) =
     (if c = CHR ''/'' then [] # split_path cs
      else (case split_path cs of [] \<Rightarrow> [[c]] | p # ps \<Rightarrow> (c # p) # ps))"

text \<open>Walking the components of a relative path from depth \<open>d\<close> never leaves the root.\<close>

fun stays_inside :: "nat \<Rightarrow> string list \<Rightarrow> bool" where
  "stays_inside d [] = True"
| "stays_inside d (p # ps) =
     (if p = [] \<or> p = ''.'' then stays_inside d ps
      else if p = ''..'' then (case d of 0 \<Rightarrow> False | Suc e \<Rightarrow> stays_inside e ps)
      else stays_inside (Suc d) ps)"

definition unsafe_member :: "string \<Rightarrow> bool" where
  "unsafe_member name =
     (if take 1 name = ''/'' then True else \<not> stays_inside 0 (split_path name))"

definition extract_archive ::
  "string \<Rightarrow> string \<Rightarrow> world \<Rightarrow> (failure + string list) \<times> world" where
  "extract_archive inputPath destDir w =
     (case fs w inputPath of
        Some (Archive ms) \<Rightarrow>
          if list_ex (\<lambda>(name, content). unsafe_member name) ms then (Inl UnsafeArchive, w)
          else (Inr (map (\<lambda>(name, content). path_join destDir name) ms),
                w\<lparr>fs := fold (\<lambda>(name, content) m. m(path_join destDir name \<mapsto> Plain content))
                            ms (fs w),
                  events := events w @
                    map (\<lambda>k. (int k * 100) div int (length ms)) [1..<Suc (length ms)]\<rparr>)
      | _ \<Rightarrow> (Inl InvalidArchive, w))"

section \<open>handlers.py\<close>

subsection \<open>The state of the bot\<close>

text \<open>
  Values passed to \<open>get_message\<close> as keyword arguments.
\<close>

datatype pyval = PStr string | PInt int | PReal real

text \<open>
  \<open>get_message\<close> as the handlers import it: key, language and keyword arguments to a
  text or an exception. The handlers take it as the parameter \<open>gm\<close>; the program has
  \<open>gm = get_message render\<close>.
\<close>

type_synonym messages = "string \<Rightarrow> string \<Rightarrow> (string \<times> pyval) list \<Rightarrow> py_exc + string"

text \<open>
  An \<open>asyncio\<close> task is running, running with a cancellation requested (\<open>task.cancel()\<close>
  was called and the task has not ended yet), or done.
\<close>

datatype task_status = Running | CancelRequested | Finished

text \<open>
  A value of \<open>user_tasks\<close>: a dictionary with the optional keys \<open>temp_files\<close>, \<open>task\<close>,
  \<open>operation\<close>, \<open>file_path\<close> and \<open>format\<close>. A task is referred to by its number in the store
  of tasks, since the handler that awaits it and \<open>cmd_cancel\<close> share it.
\<close>

record entry =
  e_temp_files :: "string list option"
  e_task :: "nat option"
  e_operation :: "string option"
  e_file_path :: "string option"
  e_format :: "string option"

definition empty_entry :: entry where
  "empty_entry =
     \<lparr>e_temp_files = None, e_task = None, e_operation = None, e_file_path = None,
      e_format = None\<rparr>"

text \<open>
  The module's globals \<open>user_tasks\<close>, \<open>user_languages\<close> and \<open>concurrent_tasks\<close>; the tasks
  created so far; the files that exist (\<open>disk\<close>) and those whose removal fails (\<open>locked\<close>);
  the texts sent to the chat.
\<close>

record bot =
  user_tasks :: "int \<rightharpoonup> entry"
  user_languages :: "int \<rightharpoonup> string"
  concurrent_tasks :: int
  tasks :: "nat \<Rightarrow> task_status"
  next_task :: nat
  disk :: "string set"
  locked :: "string set"
  sent :: "string list"

definition bot0 :: bot where
  "bot0 =
     \<lparr>user_tasks = Map.empty, user_languages = Map.empty, concurrent_tasks = 0,
      tasks = (\<lambda>t. Finished), next_task = 0, disk = {}, locked = {}, sent = []\<rparr>"

subsection \<open>Helpers of the model\<close>

text \<open>
  A step of a handler returns the new state and the exception it raised, if any; the
  steps after a raise are skipped.
\<close>

definition then_do ::
  "bot \<times> py_exc option \<Rightarrow> (bot \<Rightarrow> bot \<times> py_exc option) \<Rightarrow> bot \<times> py_exc option" where
  "then_do r k = (case r of (st, None) \<Rightarrow> k st | (st, Some e) \<Rightarrow> (st, Some e))"

text \<open>
  \<open>await message.answer(get_message(key, lang, **kwargs))\<close>: an exception of \<open>get_message\<close>
  is raised before anything is sent. The calls of the Telegram API themselves are taken
  to succeed.
\<close>

definition answer ::
  "messages \<Rightarrow> string \<Rightarrow> string \<Rightarrow> (string \<times> pyval) list \<Rightarrow> bot \<Rightarrow> bot \<times> py_exc option" where
  "answer gm key lang kwargs st =
     (case gm key lang kwargs of
        Inl e \<Rightarrow> (st, Some e)
      | Inr text \<Rightarrow> (st\<lparr>sent := sent st @ [text]\<rparr>, None))"

text \<open>
  The clean-up loop the handlers share: every listed file that exists is removed; a
  removal that fails is logged and the loop goes on.
\<close>

definition remove_files :: "string list \<Rightarrow> bot \<Rightarrow> bot" where
  "remove_files ps st =
     st\<lparr>disk := fold (\<lambda>p d. if p \<in> d \<and> p \<notin> locked st then d - {p} else d) ps (disk st)\<rparr>"

text \<open>\<open>user_tasks[user_id]["temp_files"].append(p)\<close>; a missing key is a KeyError.\<close>

definition append_temp_file :: "int \<Rightarrow> string \<Rightarrow> bot \<Rightarrow> bot \<times> py_exc option" where
  "append_temp_file user_id p st =
     (case user_tasks st user_id of
        None \<Rightarrow> (st, Some KeyError)
      | Some e \<Rightarrow>
          (case e_temp_files e of
             None \<Rightarrow> (st, Some KeyError)
           | Some ps \<Rightarrow>
               (st\<lparr>user_tasks := (user_tasks st)(user_id \<mapsto> e\<lparr>e_temp_files := Some (ps @ [p])\<rparr>)\<rparr>,
                None)))"

text \<open>
  The clean-up at the end of a handler (lines 155 to 162 and 232 to 239): the files of
  \<open>user_tasks[user_id].get("temp_files", [])\<close> are removed and the entry becomes \<open>{}\<close>.
\<close>

definition clean_up :: "int \<Rightarrow> entry \<Rightarrow> bot \<Rightarrow> bot" where
  "clean_up user_id e st =
     (remove_files (case e_temp_files e of Some ps \<Rightarrow> ps | None \<Rightarrow> []) st)
       \<lparr>user_tasks := (user_tasks st)(user_id \<mapsto> empty_entry)\<rparr>"

text \<open>The text of an exception, \<open>str(e)\<close>, is not modelled: the name of its class stands for it.\<close>

definition str_exc :: "py_exc \<Rightarrow> string" where
  "str_exc e =
     (case e of
        KeyError \<Rightarrow> ''KeyError'' | ValueError \<Rightarrow> ''ValueError'' | IndexError \<Rightarrow> ''IndexError''
      | AttributeError \<Rightarrow> ''AttributeError'' | TypeError \<Rightarrow> ''TypeError''
      | CancelledError \<Rightarrow> ''CancelledError'' | OSError \<Rightarrow> ''OSError'')"

text \<open>\<open>str(n)\<close> for an integer, and \<open>s.upper()\<close> on ASCII.\<close>

function str_nat :: "nat \<Rightarrow> string" where
  "str_nat n =
     (if n < 10 then [''0123456789'' ! n]
      else str_nat (n div 10) @ [''0123456789'' ! (n mod 10)])"
  by pat_completeness auto
termination
  by (relation "measure id") auto

declare str_nat.simps [simp del]

definition str_int :: "int \<Rightarrow> string" where
  "str_int i = (if i < 0 then CHR ''-'' # str_nat (nat (- i)) else str_nat (nat i))"

definition upper :: "string \<Rightarrow> string" where
  "upper s =
     map (\<lambda>c. if 97 \<le> (of_char c :: nat) \<and> (of_char c :: nat) \<le> 122
             then char_of ((of_char c :: nat) - 32) else c) s"

text \<open>
  The test of lines 69 and 101: the requester has an entry whose \<open>task\<close> is set (line 69),
  and that task is not done (line 101).
\<close>

definition has_task :: "bot \<Rightarrow> int \<Rightarrow> bool" where
  "has_task st user_id =
     (case user_tasks st user_id of
        None \<Rightarrow> False
      | Some e \<Rightarrow> (case e_task e of None \<Rightarrow> False | Some t \<Rightarrow> True))"

definition has_live_task :: "bot \<Rightarrow> int \<Rightarrow> bool" where
  "has_live_task st user_id =
     (case user_tasks st user_id of
        None \<Rightarrow> False
      | Some e \<Rightarrow> (case e_task e of None \<Rightarrow> False | Some t \<Rightarrow> tasks st t \<noteq> Finished))"

subsection \<open>\<open>cmd_cancel\<close>\<close>

text \<open>
  \<open>/cancel\<close> (lines 63 to 89); \<open>lang\<close> is the result of \<open>get_user_language\<close>, which is not
  in the source. With a task in the requester's entry: the task is cancelled unless it is
  done, the files of \<open>temp_files\<close> are removed, the entry becomes \<open>{}\<close>, and the requester
  is told so.
\<close>

definition cmd_cancel :: "messages \<Rightarrow> int \<Rightarrow> string \<Rightarrow> bot \<Rightarrow> bot \<times> py_exc option" where
  "cmd_cancel gm user_id lang st =
     (case user_tasks st user_id of
        None \<Rightarrow> answer gm ''no_active_task'' lang [] st
      | Some e \<Rightarrow>
          (case e_task e of
             None \<Rightarrow> answer gm ''no_active_task'' lang [] st
           | Some t \<Rightarrow>
               let st1 = (if tasks st t \<noteq> Finished
                          then st\<lparr>tasks := (tasks st)(t := CancelRequested)\<rparr> else st);
                   st2 = (case e_temp_files e of Some ps \<Rightarrow> remove_files ps st1 | None \<Rightarrow> st1);
                   st3 = st2\<lparr>user_tasks := (user_tasks st2)(user_id \<mapsto> empty_entry)\<rparr>
               in answer gm ''task_cancelled'' lang [] st3))"

subsection \<open>\<open>handle_document\<close>\<close>

text \<open>
  The body of the \<open>try\<close> statement (lines 114 to 148). \<open>download\<close> is the exception
  \<open>bot.download\<close> raises, if any; \<open>is_archive\<close> is the result of \<open>is_archive_file\<close>, which
  is not in the source. Directories are not modelled.
\<close>

definition handle_document_body ::
  "messages \<Rightarrow> int \<Rightarrow> string \<Rightarrow> string \<Rightarrow> int \<Rightarrow> py_exc option \<Rightarrow> bool \<Rightarrow> bot
     \<Rightarrow> bot \<times> py_exc option" where
  "handle_document_body gm user_id lang file_name file_size download is_archive st =
     (let file_size_mb = real_of_int file_size / (1024 * 1024);
          user_temp_dir = path_join TEMP_DIR (str_int user_id);
          path = path_join user_temp_dir file_name
      in then_do (append_temp_file user_id path st) (\<lambda>st.
         then_do (answer gm ''file_received'' lang
                    [(''file_name'', PStr file_name), (''file_size_mb'', PReal file_size_mb)] st) (\<lambda>st.
         then_do (answer gm ''processing'' lang [] st) (\<lambda>st.
         then_do (case download of
                    Some e \<Rightarrow> (st, Some e)
                  | None \<Rightarrow> (st\<lparr>disk := insert path (disk st)\<rparr>, None)) (\<lambda>st.
         if is_archive then (st\<lparr>sent := sent st @ [''Choose action:'']\<rparr>, None)
         else answer gm ''compress_format_select'' lang [] st)))))"

text \<open>
  \<open>handle_document\<close> (lines 92 to 162). A requester with a live task is told to wait and
  nothing else happens (lines 100 to 103); at the limit of concurrent tasks the requester
  is told to try later (lines 105 to 108). Otherwise the entry is initialised and the
  body runs; \<open>except Exception\<close> reports the error and cleans up (CancelledError is not
  an \<open>Exception\<close>).
\<close>

definition handle_document ::
  "messages \<Rightarrow> int \<Rightarrow> string \<Rightarrow> string option \<Rightarrow> int \<Rightarrow> py_exc option \<Rightarrow> bool \<Rightarrow> bot
     \<Rightarrow> bot \<times> py_exc option" where
  "handle_document gm user_id lang document_file_name file_size download is_archive st =
     (if has_live_task st user_id then answer gm ''processing'' lang [] st
      else if concurrent_tasks st \<ge> MAX_CONCURRENT_TASKS then
        answer gm ''error_general'' lang
          [(''error'', PStr ''Too many active tasks. Please try again later.'')] st
      else
        let st1 = st\<lparr>user_tasks := (user_tasks st)(user_id \<mapsto> empty_entry\<lparr>e_temp_files := Some []\<rparr>)\<rparr>;
            file_name = (case document_file_name of
                           None \<Rightarrow> ''unknown_file''
                         | Some n \<Rightarrow> if n = [] then ''unknown_file'' else n)
        in (case handle_document_body gm user_id lang file_name file_size download is_archive st1 of
              (st2, None) \<Rightarrow> (st2, None)
            | (st2, Some e) \<Rightarrow>
                if e = CancelledError then (st2, Some e)
                else then_do (answer gm ''error_processing'' lang [(''error'', PStr (str_exc e))] st2)
                       (\<lambda>st3. (case user_tasks st3 user_id of
                                 None \<Rightarrow> (st3, None)
                               | Some en \<Rightarrow> (clean_up user_id en st3, None)))))"

subsection \<open>\<open>compress_callback\<close>\<close>

text \<open>
  The handler suspends at \<open>await task\<close> (line 211) until the compression ends, and other
  handlers run meanwhile. It is modelled in two steps: up to the suspension, and from the
  result of the task on. A step ends by returning, by raising, or by waiting for a task.
\<close>

datatype cb_result = Returned | Raised py_exc | Awaiting nat

text \<open>
  The \<open>except\<close> clauses and the \<open>finally\<close> clause (lines 241 to 248) for an exception
  raised in the \<open>try\<close> block: the requester is told, and the counter is decremented
  whether or not telling raised.
\<close>

definition compress_except :: "messages \<Rightarrow> string \<Rightarrow> py_exc \<Rightarrow> bot \<Rightarrow> bot \<times> cb_result" where
  "compress_except gm lang e st =
     (case (if e = CancelledError then answer gm ''task_cancelled'' lang [] st
            else answer gm ''error_compression'' lang [(''error'', PStr (str_exc e))] st) of
        (st1, r) \<Rightarrow>
          (st1\<lparr>concurrent_tasks := concurrent_tasks st1 - 1\<rparr>,
           case r of None \<Rightarrow> Returned | Some e2 \<Rightarrow> Raised e2))"

text \<open>
  Lines 170 to 211, up to \<open>await task\<close>. \<open>file_path\<close> and \<open>format_name\<close> are the parts of the
  callback data. A missing file is reported and the handler returns; a requester
  without an entry raises KeyError (line 182), before the \<open>try\<close>. In the \<open>try\<close> block the
  counter is incremented first (line 188, no check), the progress message is sent, the
  task is created and stored in the entry.
\<close>

definition compress_callback_begin ::
  "messages \<Rightarrow> int \<Rightarrow> string \<Rightarrow> string \<Rightarrow> bot \<Rightarrow> bot \<times> cb_result" where
  "compress_callback_begin gm user_id path format_name st =
     (let lang = (case user_languages st user_id of Some l \<Rightarrow> l | None \<Rightarrow> ''en'') in
      if path \<notin> disk st then
        (case answer gm ''error_processing'' lang [(''error'', PStr ''File not found'')] st of
           (st1, None) \<Rightarrow> (st1, Returned)
         | (st1, Some e) \<Rightarrow> (st1, Raised e))
      else
        (case user_tasks st user_id of
           None \<Rightarrow> (st, Raised KeyError)
         | Some en \<Rightarrow>
             (let st1 = st\<lparr>user_tasks := (user_tasks st)(user_id \<mapsto>
                          en\<lparr>e_operation := Some ''compress'', e_file_path := Some path,
                             e_format := Some format_name\<rparr>)\<rparr>;
                  st2 = st1\<lparr>concurrent_tasks := concurrent_tasks st1 + 1\<rparr>
              in (case answer gm ''compressing'' lang
                         [(''format'', PStr (upper format_name)), (''progress'', PInt 0)] st2 of
                    (st3, Some e) \<Rightarrow> compress_except gm lang e st3
                  | (st3, None) \<Rightarrow>
                      (let t = next_task st3;
                           st4 = st3\<lparr>tasks := (tasks st3)(t := Running), next_task := Suc t\<rparr>
                       in (case user_tasks st4 user_id of
                             None \<Rightarrow> compress_except gm lang KeyError st4
                           | Some en2 \<Rightarrow>
                               (st4\<lparr>user_tasks :=
                                      (user_tasks st4)(user_id \<mapsto> en2\<lparr>e_task := Some t\<rparr>)\<rparr>,
                                Awaiting t)))))))"

text \<open>
  How the awaited task ended: with the output path, or with an exception (CancelledError
  after \<open>task.cancel()\<close>).
\<close>

datatype task_outcome = TaskReturned string | TaskRaised py_exc

text \<open>
  Lines 211 to 248, from the result of task \<open>t\<close> on. \<open>lang\<close> is the local variable set
  at line 172; \<open>too_large\<close> is the test of line 218;
  \<open>send\<close> is the exception sending the file raises, if any (\<open>bot.send_document\<close>, or
  \<open>split_and_send_file\<close>, which is not in the source). A task that returned has created
  its output file. The clean-up of the owned files is the last step of the \<open>try\<close> block:
  it runs on success only. The counter is decremented on every way out.
\<close>

definition compress_callback_resume ::
  "messages \<Rightarrow> int \<Rightarrow> string \<Rightarrow> nat \<Rightarrow> task_outcome \<Rightarrow> bool \<Rightarrow> py_exc option \<Rightarrow> bot \<Rightarrow> bot \<times> cb_result" where
  "compress_callback_resume gm user_id lang t outcome too_large send st =
     (let st0 = st\<lparr>tasks := (tasks st)(t := Finished)\<rparr>
      in case outcome of
           TaskRaised e \<Rightarrow> compress_except gm lang e st0
         | TaskReturned output_path \<Rightarrow>
             (case
                then_do (append_temp_file user_id output_path
                           (st0\<lparr>disk := insert output_path (disk st0)\<rparr>)) (\<lambda>st.
                then_do (answer gm ''compression_complete'' lang [] st) (\<lambda>st.
                then_do (if too_large
                         then then_do (answer gm ''file_too_large_telegram'' lang [] st)
                                (\<lambda>st. (st, send))
                         else (st, send)) (\<lambda>st.
                (case user_tasks st user_id of
                   None \<Rightarrow> (st, Some KeyError)
                 | Some en \<Rightarrow> (clean_up user_id en st, None)))))
              of
                (st1, None) \<Rightarrow> (st1\<lparr>concurrent_tasks := concurrent_tasks st1 - 1\<rparr>, Returned)
              | (st1, Some e) \<Rightarrow> compress_except gm lang e st1))"

text \<open>
  The states the handlers reach from the initial one, with the tasks whose
  \<open>compress_callback\<close> is suspended at \<open>await task\<close>. The steps of different requesters
  interleave in any order; a suspended handler resumes once.
\<close>

inductive reach :: "messages \<Rightarrow> bot \<Rightarrow> nat set \<Rightarrow> bool" for gm :: messages where
  reach_init: "reach gm bot0 {}"
| reach_document:
    "reach gm st A \<Longrightarrow>
     reach gm (fst (handle_document gm user_id lang name file_size download is_archive st)) A"
| reach_cancel:
    "reach gm st A \<Longrightarrow> reach gm (fst (cmd_cancel gm user_id lang st)) A"
| reach_begin:
    "reach gm st A \<Longrightarrow> compress_callback_begin gm user_id path format_name st = (st1, r) \<Longrightarrow>
     reach gm st1 (case r of Awaiting t \<Rightarrow> insert t A | Returned \<Rightarrow> A | Raised e \<Rightarrow> A)"
| reach_resume:
    "reach gm st A \<Longrightarrow> t \<in> A \<Longrightarrow>
     reach gm (fst (compress_callback_resume gm user_id lang t outcome too_large send st)) (A - {t})"

text \<open>
  A stand-in for a \<open>get_message\<close> that returns a text for every call, as its docstring
  says: the key itself.
\<close>

definition echo_key :: messages where
  "echo_key key lang kwargs = Inr key"

text \<open>
  A renderer for closed statements: the text of the argument, with no attribute access, no
  conversion and an empty format specification; anything else is not modelled and is a
  ValueError here. No template of \<open>MESSAGES\<close> reaches the renderer: all their fields are
  positional.
\<close>

definition plain_render :: "pyval render" where
  "plain_render v rest cv sp =
     (if rest = [] \<and> cv = None \<and> sp = [] then
        (case v of PStr s \<Rightarrow> Inr s | PInt i \<Rightarrow> Inr (str_int i) | PReal x \<Rightarrow> Inl ValueError)
      else Inl ValueError)"

subsection \<open>Notions used in the statements about the handlers\<close>

text \<open>No entry holds a task.\<close>

definition no_tasks :: "bot \<Rightarrow> bool" where
  "no_tasks st = (\<forall>u. \<not> has_task st u)"




section \<open>Properties of strings.py\<close>

text \<open>
  What \<open>get_message\<close> does do: without keyword arguments it returns a text; an unknown
  language is English; a key unknown to the table is its own text; KeyError and
  ValueError never leave it.
\<close>

lemma en_known: "map_of MESSAGES ''en'' = Some MESSAGES_en"
  by (simp add: MESSAGES_def)

lemma get_message_no_kwargs: "\<exists>s. get_message render key lang [] = Inr s"
proof (cases "map_of MESSAGES lang")
  case None
  then show ?thesis
    by (simp add: get_message_def en_known)
next
  case (Some table)
  then show ?thesis
    by (simp add: get_message_def)
qed

lemma get_message_unknown_language:
  "map_of MESSAGES lang = None \<Longrightarrow>
   get_message render key lang kwargs = get_message render key ''en'' kwargs"
  by (simp add: get_message_def MESSAGES_def)

lemma get_message_unknown_key:
  "map_of MESSAGES_en key = None \<Longrightarrow> get_message render key ''en'' [] = Inr key"
  by (simp add: get_message_def MESSAGES_def)

lemma get_message_catches:
  "get_message render key lang kwargs \<noteq> Inl KeyError
   \<and> get_message render key lang kwargs \<noteq> Inl ValueError"
proof (cases "map_of MESSAGES lang")
  case None
  then show ?thesis
    by (simp add: get_message_def en_known Let_def split: sum.splits)
next
  case (Some table)
  then show ?thesis
    by (simp add: get_message_def Let_def split: sum.splits)
qed

lemma en_compressing:
  "map_of MESSAGES_en ''compressing'' =
     Some ''Compressing your file to {}...\<newline>\<newline>Progress: {}%''"
  by (simp add: MESSAGES_en_def)

lemma format_positional_field:
  "py_format render kwargs ''Compressing your file to {}...\<newline>\<newline>Progress: {}%'' = Inl IndexError"
  by (simp add: parse_field_def get_field_def)

text \<open>
  C10 (the code at the failing input). \<open>get_message("compressing", "en", format=...,
  progress=...)\<close>, the call \<open>compress_callback\<close> makes, raises IndexError: the template
  has positional fields \<open>{}\<close>, the arguments are keywords, and IndexError is not among the
  exceptions \<open>get_message\<close> catches.
\<close>

theorem get_message_compressing_raises:
  "get_message render ''compressing'' ''en'' [(''format'', fmt), (''progress'', progress)]
     = Inl IndexError"
  by (simp add: get_message_def MESSAGES_def en_compressing parse_field_def get_field_def)


section \<open>Properties of zip-utils.py\<close>

subsection \<open>Arithmetic of the percentage\<close>

lemma CHUNK_SIZE_pos: "0 < CHUNK_SIZE"
  by (simp add: CHUNK_SIZE_def)

lemma py_int_percent:
  assumes "0 \<le> p" and "0 < t"
  shows "py_int ((real_of_int p / real_of_int t) * 100) = (p * 100) div t"
proof -
  have "(real_of_int p / real_of_int t) * 100 = real_of_int (p * 100) / real_of_int t"
    by simp
  moreover have "0 \<le> real_of_int (p * 100) / real_of_int t"
    using assms by simp
  ultimately show ?thesis
    by (simp only: py_int_def if_True floor_divide_of_int_eq)
qed

lemma percent_of_div: "0 \<le> p \<Longrightarrow> 0 < t \<Longrightarrow> percent_of t p = min ((p * 100) div t) 100"
  by (simp only: percent_of_def py_int_percent)



lemma percent_of_total: "0 < t \<Longrightarrow> percent_of t t = 100"
  by (simp add: percent_of_div)


subsection \<open>Chunks and processed sizes\<close>

lemma chunks_Nil [simp]: "chunks n [] = []"
  by (simp add: chunks.simps)

lemma chunks_step: "0 < n \<Longrightarrow> xs \<noteq> [] \<Longrightarrow> chunks n xs = take n xs # chunks n (drop n xs)"
  by (subst chunks.simps) simp

lemma chunks_eq_Nil: "0 < n \<Longrightarrow> chunks n xs = [] \<longleftrightarrow> xs = []"
  by (subst chunks.simps) simp






lemma length_processed_after: "length (processed_after p cs) = length cs"
  by (induction cs arbitrary: p) simp_all

subsection \<open>\<open>update_progress\<close> and the loop\<close>

lemma update_progress_ok:
  assumes "\<not> canceled task"
  shows "update_progress task n w =
     Inr (task\<lparr>processed_size := processed_size task + n\<rparr>,
          if 0 < total_size task \<and> progress_callback task
          then w\<lparr>events := events w @ [percent_of (total_size task) (processed_size task + n)]\<rparr>
          else w)"
  using assms by (simp add: update_progress_def percent_of_def Let_def)

lemma zip_loop_Nil: "zip_loop task file_name tmp [] zipf w = (None, zipf, w)"
  by (simp add: zip_loop.simps)


lemma zip_loop_step:
  assumes "\<not> canceled task" and "f \<noteq> []"
  shows "zip_loop task file_name tmp f zipf w =
           (case update_progress task (int (length (take CHUNK_SIZE f)))
                   (w\<lparr>fs := (fs w)(tmp \<mapsto> Plain (take CHUNK_SIZE f))\<rparr>) of
              Inr (task1, w2) \<Rightarrow>
                zip_loop task1 file_name tmp (drop CHUNK_SIZE f)
                  (zipf @ [(file_name, take CHUNK_SIZE f)]) w2
            | Inl e \<Rightarrow> (Some e, zipf @ [(file_name, take CHUNK_SIZE f)],
                w\<lparr>fs := (fs w)(tmp \<mapsto> Plain (take CHUNK_SIZE f))\<rparr>))"
  using assms CHUNK_SIZE_pos
  by (subst zip_loop.simps) (simp add: Let_def split: sum.splits)

text \<open>
  The loop for a task that is not cancelled: one member and one call of
  \<open>update_progress\<close> per chunk; the temporary file holds the last chunk.
\<close>

lemma zip_loop_run:
  assumes "\<not> canceled task"
  shows "zip_loop task file_name tmp f zipf w =
           (None, zipf @ map (Pair file_name) (chunks CHUNK_SIZE f),
            \<lparr>fs = (if f = [] then fs w else (fs w)(tmp \<mapsto> Plain (last (chunks CHUNK_SIZE f)))),
             events = events w @
               (if 0 < total_size task \<and> progress_callback task
                then map (percent_of (total_size task))
                       (processed_after (processed_size task) (chunks CHUNK_SIZE f))
                else [])\<rparr>)"
  using assms
proof (induction task file_name tmp f zipf w rule: zip_loop.induct)
  case (1 task file_name tmp f zipf w)
  show ?case
  proof (cases "f = []")
    case True
    then show ?thesis by (simp add: zip_loop_Nil)
  next
    case False
    let ?chunk = "take CHUNK_SIZE f"
    let ?w1 = "w\<lparr>fs := (fs w)(tmp \<mapsto> Plain ?chunk)\<rparr>"
    let ?task1 = "task\<lparr>processed_size := processed_size task + int (length ?chunk)\<rparr>"
    let ?new = "if 0 < total_size task \<and> progress_callback task
                then [percent_of (total_size task) (processed_size task + int (length ?chunk))]
                else []"
    define w2 where "w2 =
        (if 0 < total_size task \<and> progress_callback task
         then ?w1\<lparr>events := events ?w1 @
                [percent_of (total_size task) (processed_size task + int (length ?chunk))]\<rparr>
         else ?w1)"
    have up: "update_progress task (int (length ?chunk)) ?w1 = Inr (?task1, w2)"
      unfolding w2_def by (rule update_progress_ok [OF "1.prems"])
    have fs2: "fs w2 = (fs w)(tmp \<mapsto> Plain ?chunk)"
      by (simp add: w2_def)
    have ev2: "events w2 = events w @ ?new"
      by (simp add: w2_def)
    have ne: "?chunk \<noteq> []"
      using False CHUNK_SIZE_pos by simp
    have IH: "zip_loop ?task1 file_name tmp (drop CHUNK_SIZE f) (zipf @ [(file_name, ?chunk)]) w2 =
         (None,
          (zipf @ [(file_name, ?chunk)]) @ map (Pair file_name) (chunks CHUNK_SIZE (drop CHUNK_SIZE f)),
          \<lparr>fs = (if drop CHUNK_SIZE f = [] then fs w2
                 else (fs w2)(tmp \<mapsto> Plain (last (chunks CHUNK_SIZE (drop CHUNK_SIZE f))))),
           events = events w2 @
             (if 0 < total_size ?task1 \<and> progress_callback ?task1
              then map (percent_of (total_size ?task1))
                     (processed_after (processed_size ?task1) (chunks CHUNK_SIZE (drop CHUNK_SIZE f)))
              else [])\<rparr>)"
      using "1.IH" [OF refl ne refl refl up refl] "1.prems" by simp
    have ch: "chunks CHUNK_SIZE f = ?chunk # chunks CHUNK_SIZE (drop CHUNK_SIZE f)"
      using CHUNK_SIZE_pos False by (rule chunks_step)
    have lastc: "drop CHUNK_SIZE f \<noteq> [] \<Longrightarrow> chunks CHUNK_SIZE (drop CHUNK_SIZE f) \<noteq> []"
      by (simp add: chunks_eq_Nil CHUNK_SIZE_pos)
    have step: "zip_loop task file_name tmp f zipf w =
        zip_loop ?task1 file_name tmp (drop CHUNK_SIZE f) (zipf @ [(file_name, ?chunk)]) w2"
      unfolding zip_loop_step [OF "1.prems" False] up by simp
    show ?thesis
      unfolding step IH
      by (cases "drop CHUNK_SIZE f = []") (auto simp: ch fs2 ev2 lastc False fun_upd_def)
  qed
qed

subsection \<open>\<open>compress_file\<close>, format by format\<close>

lemma format_lookup [simp]:
  "map_of COMPRESSION_FORMATS ''zip'' = Some ''.zip''"
  "map_of COMPRESSION_FORMATS ''tar.gz'' = Some ''.tar.gz''"
  "map_of COMPRESSION_FORMATS ''7z'' = Some ''.7z''"
  "map_of COMPRESSION_FORMATS ''rar'' = Some ''.rar''"
  by (simp_all add: COMPRESSION_FORMATS_def)

lemma init_fields [simp]:
  "canceled (CompressionTask_init path content fmt cb) = False"
  "progress_callback (CompressionTask_init path content fmt cb) = cb"
  "processed_size (CompressionTask_init path content fmt cb) = 0"
  "total_size (CompressionTask_init path (Some f) fmt cb) = int (length f)"
  "total_size (CompressionTask_init path None fmt cb) = 0"
  by (simp_all add: CompressionTask_init_def)

text \<open>
  Zip: the archive gets one member per chunk, all under the name of the input file; the
  temporary chunk file is gone afterwards; the callback is called once per chunk.
\<close>

lemma compress_file_zip:
  "compress_file rar_branch path (Some f) ''zip'' cb w =
     (Inr (output_path_of path ''.zip''),
      \<lparr>fs = (fs w)(temp_chunk_path_of path := None,
                    output_path_of path ''.zip'' \<mapsto>
                      Archive (map (Pair (basename path)) (chunks CHUNK_SIZE f))),
       events = events w @
         (if cb then map (percent_of (int (length f))) (processed_after 0 (chunks CHUNK_SIZE f))
          else [])\<rparr>)"
proof (cases "f = []")
  case True
  then show ?thesis
    by (auto simp: compress_file_def zip_branch_def zip_loop_run temp_chunk_path_of_def Let_def
        domIff fun_upd_idem)
next
  case False
  then show ?thesis
    by (simp add: compress_file_def zip_branch_def zip_loop_run temp_chunk_path_of_def Let_def)
qed

lemma compress_file_tar:
  "compress_file rar_branch path (Some f) ''tar.gz'' cb w =
     (Inr (output_path_of path ''.tar.gz''),
      \<lparr>fs = (fs w)(output_path_of path ''.tar.gz'' \<mapsto> Archive [(basename path, f)]),
       events = events w @ (if cb \<and> f \<noteq> [] then [100] else [])\<rparr>)"
  by (simp add: compress_file_def tar_branch_def update_progress_ok percent_of_total Let_def)

lemma compress_file_7z:
  "compress_file rar_branch path (Some f) ''7z'' cb w =
     (Inr (output_path_of path ''.7z''),
      \<lparr>fs = (fs w)(output_path_of path ''.7z'' \<mapsto> Archive [(basename path, f)]),
       events = events w @ (if cb \<and> f \<noteq> [] then [100] else [])\<rparr>)"
  by (simp add: compress_file_def sevenz_branch_def update_progress_ok percent_of_total Let_def)


lemma emitted_append [simp]: "emitted w \<lparr>fs = m, events = events w @ es\<rparr> = es"
  by (simp add: emitted_def)

lemma emitted_same [simp]: "emitted w \<lparr>fs = m, events = events w\<rparr> = []"
  by (simp add: emitted_def)



subsection \<open>C5: the sequence of progress values\<close>




subsection \<open>C6: a zero-byte input\<close>



subsection \<open>C7: one call of the callback per chunk\<close>



subsection \<open>The paths \<open>compress_file\<close> writes\<close>

lemma length_takeWhile_neq:
  "c \<in> set xs \<Longrightarrow> length (takeWhile (\<lambda>d. d \<noteq> c) xs) < length xs"
  by (induction xs) auto

lemma basename_eq: "basename p = rev (takeWhile (\<lambda>c. c \<noteq> CHR ''/'') (rev p))"
proof (cases "CHR ''/'' \<in> set p")
  case True
  let ?k = "length (takeWhile (\<lambda>c. c \<noteq> CHR ''/'') (rev p))"
  have k: "?k < length p"
    using True length_takeWhile_neq [of "CHR ''/''" "rev p"] by simp
  have "basename p = drop (length p - ?k) p"
    using True k by (simp add: basename_def rfind_def nat_diff_distrib' of_nat_diff)
  also have "\<dots> = rev (take ?k (rev p))"
    by (simp add: rev_take)
  also have "take ?k (rev p) = takeWhile (\<lambda>c. c \<noteq> CHR ''/'') (rev p)"
    by (rule takeWhile_eq_take [symmetric])
  finally show ?thesis .
next
  case False
  have tw: "takeWhile (\<lambda>c. c \<noteq> CHR ''/'') (rev p) = rev p"
    using False by (auto simp: takeWhile_eq_all_conv)
  have "basename p = p"
    using False by (simp add: basename_def rfind_def)
  then show ?thesis
    unfolding tw by simp
qed

lemma basename_no_sep: "CHR ''/'' \<notin> set (basename p)"
  unfolding basename_eq using set_takeWhileD by fastforce

lemma splitext_root_prefix: "\<exists>k. fst (splitext q) = take k q"
  by (auto simp: splitext_def Let_def intro: exI [of _ "length q"])

lemma root_no_sep: "CHR ''/'' \<notin> set (fst (splitext (basename p)))"
proof -
  obtain k where "fst (splitext (basename p)) = take k (basename p)"
    using splitext_root_prefix by blast
  then show ?thesis
    using basename_no_sep [of p] by (auto dest: in_set_takeD)
qed

lemma path_join_TEMP_DIR:
  "take 1 b \<noteq> ''/'' \<Longrightarrow> path_join TEMP_DIR b = TEMP_DIR @ ''/'' @ b"
  by (simp add: path_join_def TEMP_DIR_def)

lemma output_path_of_eq:
  assumes "take 1 ext = ''.''"
  shows "output_path_of path ext = TEMP_DIR @ ''/'' @ fst (splitext (basename path)) @ ext"
proof -
  have "take 1 (fst (splitext (basename path)) @ ext) \<noteq> ''/''"
    using root_no_sep [of path] assms
    by (cases "fst (splitext (basename path))") auto
  then show ?thesis
    by (simp add: output_path_of_def path_join_TEMP_DIR)
qed

lemma temp_chunk_path_of_eq:
  "temp_chunk_path_of path = TEMP_DIR @ ''/chunk_'' @ basename path"
  by (simp add: temp_chunk_path_of_def path_join_def TEMP_DIR_def)

lemma compress_file_ok:
  assumes "fmt = ''zip'' \<or> fmt = ''tar.gz'' \<or> fmt = ''7z''"
  shows "fst (compress_file rar_branch path (Some f) fmt cb w) =
           Inr (output_path_of path (the (map_of COMPRESSION_FORMATS fmt)))"
    and "fs (snd (compress_file rar_branch path (Some f) fmt cb w)) q \<noteq> fs w q \<Longrightarrow>
           q = output_path_of path (the (map_of COMPRESSION_FORMATS fmt)) \<or> q = temp_chunk_path_of path"
  using assms
  by (auto simp: compress_file_zip compress_file_tar compress_file_7z split: if_splits)

subsection \<open>C8: where the files of an operation live\<close>

text \<open>
  Counterexample to C8 as stated: two operations of two requesters, each compressing its
  own upload named \<open>report.txt\<close> to zip, write the same output file and the same
  temporary chunk file, both directly in \<open>TEMP_DIR\<close>.
\<close>

theorem same_name_same_paths:
  "fst (compress_file rar_unavailable ''temp_files/1/report.txt'' (Some [1]) ''zip'' True world0)
     = Inr ''temp_files/report.zip''
   \<and> fst (compress_file rar_unavailable ''temp_files/2/report.txt'' (Some [2]) ''zip'' True world0)
     = Inr ''temp_files/report.zip''
   \<and> temp_chunk_path_of ''temp_files/1/report.txt'' = ''temp_files/chunk_report.txt''
   \<and> temp_chunk_path_of ''temp_files/2/report.txt'' = ''temp_files/chunk_report.txt''"
  by (simp add: compress_file_zip output_path_of_def temp_chunk_path_of_def basename_def rfind_def
      splitext_def path_join_def TEMP_DIR_def)

text \<open>
  C8, as the code has it. For the formats zip, tar.gz and 7z, the output path is
  \<open>TEMP_DIR/<root><extension>\<close>, where \<open>root\<close> is the base name of the input path with its last
  extension removed (\<open>os.path.splitext\<close>) and \<open>extension\<close> is the fixed extension of the format;
  the only other path an operation touches is \<open>TEMP_DIR/chunk_<base name>\<close>. Both lie
  directly in the shared \<open>TEMP_DIR\<close> and are determined by the base name and the format
  alone: any operation on an input with the same base name gets the same output path.
\<close>

theorem compress_paths:
  assumes "fmt = ''zip'' \<or> fmt = ''tar.gz'' \<or> fmt = ''7z''"
  shows "fst (compress_file rar_branch path (Some f) fmt cb w) =
           Inr (TEMP_DIR @ ''/'' @ fst (splitext (basename path)) @ the (map_of COMPRESSION_FORMATS fmt))
         \<and> (\<forall>q. fs (snd (compress_file rar_branch path (Some f) fmt cb w)) q \<noteq> fs w q \<longrightarrow>
               q = TEMP_DIR @ ''/'' @ fst (splitext (basename path)) @ the (map_of COMPRESSION_FORMATS fmt)
               \<or> q = TEMP_DIR @ ''/chunk_'' @ basename path)
         \<and> (\<forall>path2 f2 cb2 w2. basename path2 = basename path \<longrightarrow>
               fst (compress_file rar_branch path2 (Some f2) fmt cb2 w2) =
               fst (compress_file rar_branch path (Some f) fmt cb w))"
proof -
  let ?ext = "the (map_of COMPRESSION_FORMATS fmt)"
  let ?run = "compress_file rar_branch path (Some f) fmt cb w"
  have ext: "take 1 ?ext = ''.''"
    using assms by auto
  have out: "output_path_of path ?ext = TEMP_DIR @ ''/'' @ fst (splitext (basename path)) @ ?ext"
    by (rule output_path_of_eq [OF ext])
  have a: "fst ?run = Inr (output_path_of path ?ext)"
    by (rule compress_file_ok(1) [OF assms])
  have b: "\<forall>q. fs (snd ?run) q \<noteq> fs w q \<longrightarrow>
             q = output_path_of path ?ext \<or> q = temp_chunk_path_of path"
    using compress_file_ok(2) [OF assms] by blast
  have c: "\<forall>path2 f2 cb2 w2. basename path2 = basename path \<longrightarrow>
             fst (compress_file rar_branch path2 (Some f2) fmt cb2 w2) = fst ?run"
    by (simp add: compress_file_ok(1) [OF assms] output_path_of_def)
  show ?thesis
    using a b c unfolding out temp_chunk_path_of_eq
    by (intro conjI) assumption+
qed

text \<open>Witness for C8: \<open>temp_files/1/report.txt\<close> compressed to tar.gz.\<close>

theorem compress_paths_witness:
  "fst (compress_file rar_unavailable ''temp_files/1/report.txt'' (Some [1]) ''tar.gz'' True world0)
     = Inr ''temp_files/report.tar.gz''"
  using compress_paths [of "''tar.gz''" rar_unavailable "''temp_files/1/report.txt''" "[1]" True world0]
  by (simp add: basename_def rfind_def splitext_def TEMP_DIR_def)

subsection \<open>C4: cancellation\<close>




subsection \<open>C1: compression followed by extraction\<close>

lemma chunks_one_more:
  "chunks CHUNK_SIZE (replicate CHUNK_SIZE x @ [y]) = [replicate CHUNK_SIZE x, [y]]"
proof -
  have "chunks CHUNK_SIZE [y] = [[y]]"
    using CHUNK_SIZE_pos by (simp add: chunks_step)
  then show ?thesis
    using CHUNK_SIZE_pos by (simp add: chunks_step)
qed

text \<open>
  C1 (the code at the failing input). A file of \<open>CHUNK_SIZE + 1\<close> bytes, all zero but the
  last, is compressed to zip and the archive is extracted. The archive holds two members
  of the same name, one per chunk; the second replaces the first on extraction, and the
  extracted file is the last byte alone.
\<close>

theorem zip_roundtrip_keeps_last_chunk:
  "fs (snd (extract_archive ''temp_files/a.zip'' ''temp_files/1_extracted''
         (snd (compress_file rar_unavailable ''temp_files/1/a.bin''
                 (Some (replicate CHUNK_SIZE 0 @ [1])) ''zip'' True world0))))
      ''temp_files/1_extracted/a.bin''
     = Some (Plain [1])
   \<and> length (replicate CHUNK_SIZE 0 @ [1 :: 8 word]) = CHUNK_SIZE + 1"
  by (simp add: compress_file_zip chunks_one_more extract_archive_def world0_def
      output_path_of_def temp_chunk_path_of_def basename_def rfind_def splitext_def
      path_join_def TEMP_DIR_def unsafe_member_def)

text \<open>
  With tar.gz and 7z the whole file is one member, and extraction gives the input back.
\<close>

lemma roundtrip_whole_file:
  assumes "fmt = ''tar.gz'' \<or> fmt = ''7z''" and "\<not> unsafe_member (basename path)"
    and "compress_file rar_branch path (Some f) fmt cb w = (Inr out, w1)"
  shows "fs (snd (extract_archive out dest w1)) (path_join dest (basename path)) = Some (Plain f)"
  using assms
  by (auto simp: compress_file_tar compress_file_7z extract_archive_def)

section \<open>Properties of handlers.py\<close>

subsection \<open>What the steps of the handlers keep\<close>

lemma answer_keeps [simp]:
  "user_tasks (fst (answer gm key lang kw st)) = user_tasks st"
  "user_languages (fst (answer gm key lang kw st)) = user_languages st"
  "concurrent_tasks (fst (answer gm key lang kw st)) = concurrent_tasks st"
  "tasks (fst (answer gm key lang kw st)) = tasks st"
  "next_task (fst (answer gm key lang kw st)) = next_task st"
  "disk (fst (answer gm key lang kw st)) = disk st"
  "locked (fst (answer gm key lang kw st)) = locked st"
  by (simp_all add: answer_def split: sum.splits)

lemma remove_files_keeps [simp]:
  "user_tasks (remove_files ps st) = user_tasks st"
  "user_languages (remove_files ps st) = user_languages st"
  "concurrent_tasks (remove_files ps st) = concurrent_tasks st"
  "tasks (remove_files ps st) = tasks st"
  "next_task (remove_files ps st) = next_task st"
  "locked (remove_files ps st) = locked st"
  "sent (remove_files ps st) = sent st"
  by (simp_all add: remove_files_def)

lemma fold_remove:
  "fold (\<lambda>p d. if p \<in> d \<and> p \<notin> L then d - {p} else d) ps D = D - {p \<in> set ps. p \<notin> L}"
  by (induction ps arbitrary: D) auto

lemma disk_remove_files: "disk (remove_files ps st) = disk st - {p \<in> set ps. p \<notin> locked st}"
  by (simp add: remove_files_def fold_remove)

lemma clean_up_keeps [simp]:
  "concurrent_tasks (clean_up u e st) = concurrent_tasks st"
  "tasks (clean_up u e st) = tasks st"
  "next_task (clean_up u e st) = next_task st"
  "user_tasks (clean_up u e st) = (user_tasks st)(u \<mapsto> empty_entry)"
  by (simp_all add: clean_up_def)

lemma append_temp_file_keeps [simp]:
  "concurrent_tasks (fst (append_temp_file u p st)) = concurrent_tasks st"
  "tasks (fst (append_temp_file u p st)) = tasks st"
  "next_task (fst (append_temp_file u p st)) = next_task st"
  "disk (fst (append_temp_file u p st)) = disk st"
  by (simp_all add: append_temp_file_def split: option.splits)

lemma answer_eqD:
  "answer gm key lang kw st = (st', r) \<Longrightarrow>
     user_tasks st' = user_tasks st \<and> user_languages st' = user_languages st \<and>
     concurrent_tasks st' = concurrent_tasks st \<and> tasks st' = tasks st \<and>
     next_task st' = next_task st \<and> disk st' = disk st \<and> locked st' = locked st"
  by (auto simp: answer_def split: sum.splits)

text \<open>A chain of steps keeps what each of its steps keeps.\<close>

lemma then_do_keeps:
  assumes "P (fst r)" and "\<And>st. P st \<Longrightarrow> P (fst (k st))"
  shows "P (fst (then_do r k))"
  using assms by (cases r) (auto simp: then_do_def split: option.splits)

lemma handle_document_body_counter:
  "concurrent_tasks (fst (handle_document_body gm u lang name sz dl arch st)) = concurrent_tasks st
   \<and> next_task (fst (handle_document_body gm u lang name sz dl arch st)) = next_task st"
  unfolding handle_document_body_def Let_def
  by (intro then_do_keeps [where P = "\<lambda>s. concurrent_tasks s = concurrent_tasks st \<and> next_task s = next_task st"])
     (auto split: option.splits)

lemma handle_document_counter:
  "concurrent_tasks (fst (handle_document gm u lang name sz dl arch st)) = concurrent_tasks st
   \<and> next_task (fst (handle_document gm u lang name sz dl arch st)) = next_task st"
proof -
  let ?st1 = "st\<lparr>user_tasks := (user_tasks st)(u \<mapsto> empty_entry\<lparr>e_temp_files := Some []\<rparr>)\<rparr>"
  define file_name where
    "file_name = (case name of None \<Rightarrow> ''unknown_file'' | Some n \<Rightarrow> if n = [] then ''unknown_file'' else n)"
  obtain st2 r where b: "handle_document_body gm u lang file_name sz dl arch ?st1 = (st2, r)"
    by (cases "handle_document_body gm u lang file_name sz dl arch ?st1")
  have k: "concurrent_tasks st2 = concurrent_tasks st \<and> next_task st2 = next_task st"
    using handle_document_body_counter [of gm u lang file_name sz dl arch ?st1] b by simp
  show ?thesis
    unfolding handle_document_def Let_def file_name_def [symmetric] b
    using k by (auto simp: then_do_def split: option.splits prod.splits dest!: answer_eqD)
qed


subsection \<open>The counter, handler by handler\<close>

lemma cmd_cancel_counter:
  "concurrent_tasks (fst (cmd_cancel gm u lang st)) = concurrent_tasks st
   \<and> next_task (fst (cmd_cancel gm u lang st)) = next_task st"
  by (auto simp: cmd_cancel_def Let_def split: option.splits)


lemma compress_except_not_awaiting: "snd (compress_except gm lang e st) \<noteq> Awaiting t"
  by (auto simp: compress_except_def split: prod.splits option.splits)

lemma compress_except_eqD:
  "compress_except gm lang e st = (st', r) \<Longrightarrow>
     concurrent_tasks st' = concurrent_tasks st - 1 \<and> next_task st' = next_task st \<and>
     user_tasks st' = user_tasks st \<and> tasks st' = tasks st \<and> disk st' = disk st \<and>
     (r = Returned \<or> (\<exists>e2. r = Raised e2))"
  by (auto simp: compress_except_def split: prod.splits option.splits if_splits dest!: answer_eqD)

lemma begin_counter:
  assumes "compress_callback_begin gm u p fmt st = (st1, r)"
  shows "concurrent_tasks st1 = concurrent_tasks st + (case r of Awaiting t \<Rightarrow> 1 | Returned \<Rightarrow> 0 | Raised e \<Rightarrow> 0)
         \<and> next_task st \<le> next_task st1
         \<and> (case r of Awaiting t \<Rightarrow> t = next_task st \<and> next_task st1 = Suc t
              | Returned \<Rightarrow> True | Raised e \<Rightarrow> True)"
  using assms
  apply (simp add: compress_callback_begin_def Let_def split: if_splits option.splits prod.splits)
  apply (auto dest!: answer_eqD compress_except_eqD split: cb_result.splits)
  done





subsection \<open>Calls of \<open>get_message\<close> the handlers make\<close>



lemma en_lookup: "map_of MESSAGES ''en'' = Some MESSAGES_en" "map_of MESSAGES ''fa'' = Some MESSAGES_fa"
  by (simp_all add: MESSAGES_def)

lemma real_no_kwargs:
  "get_message render ''processing'' ''en'' [] = Inr ''Processing your file... Please wait.''"
  "get_message render ''task_cancelled'' ''en'' [] = Inr ''Task cancelled successfully.''"
  by (simp_all add: get_message_def en_lookup MESSAGES_en_def)



subsection \<open>With the messages of strings.py no compression starts\<close>

lemma real_compressing:
  "get_message render ''compressing'' lang [(''format'', a), (''progress'', b)] = Inl IndexError"
proof -
  consider "lang = ''en''" | "lang = ''fa''" | "map_of MESSAGES lang = None"
    by (cases "lang = ''en''"; cases "lang = ''fa''") (auto simp: MESSAGES_def)
  then show ?thesis
  proof cases
    case 1
    then show ?thesis
      by (simp add: get_message_def en_lookup MESSAGES_en_def parse_field_def get_field_def)
  next
    case 2
    then show ?thesis
      by (simp add: get_message_def en_lookup MESSAGES_fa_def parse_field_def get_field_def)
  next
    case 3
    then show ?thesis
      by (simp add: get_message_def en_lookup MESSAGES_en_def parse_field_def get_field_def)
  qed
qed

lemma no_tasks_iff: "no_tasks st \<longleftrightarrow> (\<forall>u e. user_tasks st u = Some e \<longrightarrow> e_task e = None)"
  by (fastforce simp: no_tasks_def has_task_def split: option.splits)

lemma no_tasks_upd [simp]:
  "no_tasks (st\<lparr>disk := d\<rparr>) = no_tasks st"
  "no_tasks (st\<lparr>sent := m\<rparr>) = no_tasks st"
  by (simp_all add: no_tasks_def has_task_def)

lemma no_tasks_answer: "no_tasks st \<Longrightarrow> no_tasks (fst (answer gm key lang kw st))"
  by (simp add: no_tasks_iff)

lemma no_tasks_append: "no_tasks st \<Longrightarrow> no_tasks (fst (append_temp_file u p st))"
  by (auto simp: no_tasks_iff append_temp_file_def split: option.splits if_splits)

lemma no_tasks_clean_up: "no_tasks st \<Longrightarrow> no_tasks (clean_up u e st)"
  by (auto simp: no_tasks_iff empty_entry_def split: if_splits)

lemma no_tasks_body:
  "no_tasks st \<Longrightarrow> no_tasks (fst (handle_document_body gm u lang name sz dl arch st))"
  unfolding handle_document_body_def Let_def
  by (intro then_do_keeps [where P = no_tasks])
     (auto simp: no_tasks_answer no_tasks_append split: option.splits)

lemma no_tasks_document:
  assumes "no_tasks st"
  shows "no_tasks (fst (handle_document gm u lang name sz dl arch st))"
proof -
  let ?st1 = "st\<lparr>user_tasks := (user_tasks st)(u \<mapsto> empty_entry\<lparr>e_temp_files := Some []\<rparr>)\<rparr>"
  define file_name where
    "file_name = (case name of None \<Rightarrow> ''unknown_file'' | Some n \<Rightarrow> if n = [] then ''unknown_file'' else n)"
  have "no_tasks ?st1"
    using assms by (auto simp: no_tasks_iff empty_entry_def)
  then have b: "no_tasks (fst (handle_document_body gm u lang file_name sz dl arch ?st1))"
    by (rule no_tasks_body)
  obtain st2 r where e: "handle_document_body gm u lang file_name sz dl arch ?st1 = (st2, r)"
    by (cases "handle_document_body gm u lang file_name sz dl arch ?st1")
  have st2: "no_tasks st2"
    using b e by simp
  have err: "no_tasks (fst (then_do (answer gm ''error_processing'' lang kw st2)
                 (\<lambda>st3. (case user_tasks st3 u of
                           None \<Rightarrow> (st3, None)
                         | Some en \<Rightarrow> (clean_up u en st3, None)))))" for kw
    by (intro then_do_keeps [where P = no_tasks])
       (auto simp: no_tasks_answer st2 no_tasks_clean_up split: option.splits)
  show ?thesis
    unfolding handle_document_def Let_def file_name_def [symmetric] e
    using assms st2 err by (auto simp: no_tasks_answer split: option.splits)
qed

lemma no_tasks_cancel: "no_tasks st \<Longrightarrow> no_tasks (fst (cmd_cancel gm u lang st))"
  by (auto simp: cmd_cancel_def no_tasks_iff Let_def empty_entry_def split: option.splits)

lemma begin_raises:
  assumes "\<And>lang f. gm ''compressing'' lang [(''format'', PStr f), (''progress'', PInt 0)] = Inl IndexError"
    and "compress_callback_begin gm u p fmt st = (st1, r)"
  shows "r \<noteq> Awaiting t \<and> (no_tasks st \<longrightarrow> no_tasks st1)"
  using assms(2)
  by (auto simp: compress_callback_begin_def Let_def answer_def assms(1) no_tasks_iff
      split: if_splits option.splits prod.splits sum.splits
      dest!: compress_except_eqD)

text \<open>
  With the \<open>get_message\<close> of strings.py no compression is ever started: the progress
  message of line 191 cannot be formatted, so \<open>compress_callback\<close> leaves its \<open>try\<close> block
  before it creates the task.
\<close>

lemma nothing_starts:
  assumes "reach (get_message render) st A"
  shows "A = {} \<and> concurrent_tasks st = 0 \<and> no_tasks st"
  using assms
proof (induction rule: reach.induct)
  case reach_init
  then show ?case by (simp add: bot0_def no_tasks_iff)
next
  case (reach_document st A user_id lang name file_size download is_archive)
  then show ?case by (simp add: handle_document_counter no_tasks_document)
next
  case (reach_cancel st A user_id lang)
  then show ?case by (simp add: cmd_cancel_counter no_tasks_cancel)
next
  case (reach_begin st A user_id path format_name st1 r)
  have "r \<noteq> Awaiting t \<and> (no_tasks st \<longrightarrow> no_tasks st1)" for t
    using begin_raises [OF real_compressing reach_begin.hyps(2)] .
  with begin_counter [OF reach_begin.hyps(2)] reach_begin.IH show ?case
    by (cases r) auto
next
  case (reach_resume st A t user_id lang outcome too_large send)
  then show ?case by simp
qed


subsection \<open>A submission touches the entry of its requester only\<close>












subsection \<open>C2: the counter of concurrent tasks\<close>





text \<open>
  The increment itself is not guarded by the limit: whenever the progress message can be
  produced, the callback goes on to its task with the counter one higher, whatever the
  counter was.
\<close>

lemma increment_is_unguarded:
  assumes "gm ''compressing'' (case user_languages st u of Some l \<Rightarrow> l | None \<Rightarrow> ''en'')
             [(''format'', PStr (upper fmt)), (''progress'', PInt 0)] = Inr text"
    and "p \<in> disk st" and "user_tasks st u = Some e"
  shows "snd (compress_callback_begin gm u p fmt st) = Awaiting (next_task st)
         \<and> concurrent_tasks (fst (compress_callback_begin gm u p fmt st)) = concurrent_tasks st + 1"
  using assms by (simp add: compress_callback_begin_def answer_def Let_def)

subsection \<open>C3: where owned files are deleted\<close>

text \<open>
  Counterexample to C3 as stated (signalling cancellation deletes no file): requester 7 has
  a running task and one owned file; \<open>/cancel\<close> requests the cancellation of the task and,
  in the same step, removes the file and clears the entry.
\<close>

theorem cancel_deletes_files_itself:
  "cmd_cancel (get_message plain_render) 7 ''en''
     (bot0\<lparr>user_tasks := [7 \<mapsto> empty_entry\<lparr>e_temp_files := Some [''temp_files/7/a.txt''],
                                             e_task := Some 0\<rparr>],
           tasks := (\<lambda>t. Running), disk := {''temp_files/7/a.txt''}\<rparr>) =
     (bot0\<lparr>user_tasks := [7 \<mapsto> empty_entry], tasks := (\<lambda>t. Running)(0 := CancelRequested),
           disk := {}, sent := [''Task cancelled successfully.'']\<rparr>,
      None)"
  by (simp add: cmd_cancel_def bot0_def empty_entry_def remove_files_def answer_def
      real_no_kwargs Let_def)

text \<open>
  C3, as the code has it. For a requester whose entry holds a task, \<open>cmd_cancel\<close> requests
  the cancellation of the task (unless it is done) and itself removes every owned file
  that exists and can be removed, then clears the entry. When the task returns and the
  file is sent, \<open>compress_callback\<close> removes the owned files, the output among them, and
  clears the entry as the last step of its \<open>try\<close> block.
\<close>

theorem cancel_and_success_delete:
  assumes "user_tasks st u = Some e" and "e_task e = Some t"
  shows "disk (fst (cmd_cancel gm u lang st)) =
           disk st - {p \<in> set (case e_temp_files e of Some ps \<Rightarrow> ps | None \<Rightarrow> []). p \<notin> locked st}
         \<and> user_tasks (fst (cmd_cancel gm u lang st)) = (user_tasks st)(u \<mapsto> empty_entry)
         \<and> tasks (fst (cmd_cancel gm u lang st)) t =
             (if tasks st t = Finished then Finished else CancelRequested)
         \<and> (\<forall>ps text out lang2.
               e_temp_files e = Some ps \<and>
               gm ''compression_complete'' lang2 []
                 = Inr text \<longrightarrow>
               disk (fst (compress_callback_resume gm u lang2 t (TaskReturned out) False None st)) =
                 insert out (disk st) - {p \<in> set (ps @ [out]). p \<notin> locked st}
               \<and> user_tasks (fst (compress_callback_resume gm u lang2 t (TaskReturned out) False None st)) u
                   = Some empty_entry)"
proof -
  have a: "disk (fst (cmd_cancel gm u lang st)) =
           disk st - {p \<in> set (case e_temp_files e of Some ps \<Rightarrow> ps | None \<Rightarrow> []). p \<notin> locked st}"
    using assms by (simp add: cmd_cancel_def Let_def disk_remove_files split: option.splits)
  have b: "user_tasks (fst (cmd_cancel gm u lang st)) = (user_tasks st)(u \<mapsto> empty_entry)"
    using assms by (simp add: cmd_cancel_def Let_def split: option.splits)
  have c: "tasks (fst (cmd_cancel gm u lang st)) t =
             (if tasks st t = Finished then Finished else CancelRequested)"
    using assms by (simp add: cmd_cancel_def Let_def split: option.splits)
  have d: "disk (fst (compress_callback_resume gm u lang2 t (TaskReturned outp) False None st)) =
             insert outp (disk st) - {p \<in> set (ps @ [outp]). p \<notin> locked st}
           \<and> user_tasks (fst (compress_callback_resume gm u lang2 t (TaskReturned outp) False None st)) u
               = Some empty_entry"
    if "e_temp_files e = Some ps \<and> gm ''compression_complete'' lang2 [] = Inr msg"
    for ps msg outp lang2
    using assms that
    by (simp add: compress_callback_resume_def Let_def then_do_def append_temp_file_def
        answer_def clean_up_def disk_remove_files)
  then have d': "\<forall>ps text out lang2.
               e_temp_files e = Some ps \<and> gm ''compression_complete'' lang2 [] = Inr text \<longrightarrow>
               disk (fst (compress_callback_resume gm u lang2 t (TaskReturned out) False None st)) =
                 insert out (disk st) - {p \<in> set (ps @ [out]). p \<notin> locked st}
               \<and> user_tasks (fst (compress_callback_resume gm u lang2 t (TaskReturned out) False None st)) u
                   = Some empty_entry"
    by (intro allI impI)
  show ?thesis
    using a b c d' by (intro conjI) assumption+
qed

text \<open>
  Witness for C3: two owned files, one of which cannot be removed; after \<open>/cancel\<close> that
  one is left.
\<close>

theorem cancel_and_success_delete_witness:
  "disk (fst (cmd_cancel echo_key 7 ''en''
     (bot0\<lparr>user_tasks := [7 \<mapsto> empty_entry\<lparr>e_temp_files := Some [''temp_files/7/a.txt'', ''temp_files/a.zip''],
                                             e_task := Some 0\<rparr>],
           disk := {''temp_files/7/a.txt'', ''temp_files/a.zip''},
           locked := {''temp_files/a.zip''}\<rparr>))) = {''temp_files/a.zip''}"
  using cancel_and_success_delete [of
      "bot0\<lparr>user_tasks := [7 \<mapsto> empty_entry\<lparr>e_temp_files := Some [''temp_files/7/a.txt'', ''temp_files/a.zip''],
                                             e_task := Some 0\<rparr>],
           disk := {''temp_files/7/a.txt'', ''temp_files/a.zip''},
           locked := {''temp_files/a.zip''}\<rparr>" 7
      "empty_entry\<lparr>e_temp_files := Some [''temp_files/7/a.txt'', ''temp_files/a.zip''], e_task := Some 0\<rparr>"
      0 echo_key "''en''"]
  by (auto simp: bot0_def)

subsection \<open>C9: one operation per requester\<close>



end
